theory Spec2Isabelle
  imports Complex_Main
begin

section \<open>The stock-ledger core of the ERP server\<close>

text \<open>
  The server's handlers (\<^verbatim>\<open>server/src/handlers\<close>) run SQL statements through a query
  builder against eight tables (\<^verbatim>\<open>server/src/db/schema.ts\<close>).  The embedding keeps each
  table as the list of its rows, in insertion order, and each handler as a function
  from the database to a result and the database it leaves behind.  No handler opens a
  transaction, so a handler that throws after a write leaves that write in place: the
  returned database is the one reached when the exception was thrown.

  Modelling conventions.
  \<^item> \<^verbatim>\<open>integer\<close> columns and \<^verbatim>\<open>z.number().int()\<close> inputs are \<open>int\<close>; values are taken
    to lie in the range of the column, where the handlers' arithmetic is exact.
  \<^item> Amounts of money (\<^verbatim>\<open>z.number()\<close>, \<^verbatim>\<open>numeric(p, 2)\<close> columns) are \<open>rat\<close>, with
    exact arithmetic; a \<^verbatim>\<open>numeric(p, 2)\<close> column rounds what it stores to two decimals.
  \<^item> \<^verbatim>\<open>new Date()\<close> and \<^verbatim>\<open>defaultNow()\<close> read a clock value \<open>now\<close> passed to the handler.
  \<^item> A \<^verbatim>\<open>serial\<close> column takes its value from a sequence kept beside the tables.
  \<^item> Every \<^verbatim>\<open>throw new Error(...)\<close> is a constructor of \<open>error\<close>, carrying the values
    the message interpolates.
\<close>

subsection \<open>Enumerations (\<^verbatim>\<open>schema.ts\<close>)\<close>

datatype UserRole = ADMIN | WAREHOUSE_MANAGER | PURCHASING_STAFF | TECHNICIAN

datatype PurchaseOrderStatus = DRAFT | PENDING | APPROVED | REJECTED

datatype WorkOrderStatus = OPEN | IN_PROGRESS | COMPLETED

datatype StockAdjustmentType = ADDITION | REMOVAL | CORRECTION

type_synonym timestamp = nat

subsection \<open>Rows of the tables (\<^verbatim>\<open>db/schema.ts\<close>)\<close>

record User =
  u_id :: int
  u_clerk_id :: string
  u_email :: string
  u_name :: string
  u_role :: UserRole
  u_created_at :: timestamp
  u_updated_at :: timestamp

record Item =
  i_id :: int
  i_sku :: string
  i_name :: string
  i_description :: "string option"
  i_current_stock :: int
  i_minimum_stock :: int
  i_unit_price :: rat
  i_created_at :: timestamp
  i_updated_at :: timestamp

record Supplier =
  s_id :: int
  s_name :: string
  s_contact_email :: "string option"
  s_contact_phone :: "string option"
  s_address :: "string option"
  s_bank_account :: "string option"
  s_tax_id :: "string option"
  s_created_at :: timestamp
  s_updated_at :: timestamp

record PurchaseOrder =
  po_id :: int
  po_po_number :: string
  po_supplier_id :: int
  po_status :: PurchaseOrderStatus
  po_total_amount :: rat
  po_notes :: "string option"
  po_created_by :: string
  po_created_at :: timestamp
  po_updated_at :: timestamp

record PurchaseOrderItem =
  poi_id :: int
  poi_po_id :: int
  poi_item_id :: int
  poi_quantity :: int
  poi_unit_price :: rat
  poi_total_price :: rat

record WorkOrder =
  wo_id :: int
  wo_work_order_number :: string
  wo_description :: string
  wo_assigned_technician :: string
  wo_status :: WorkOrderStatus
  wo_created_by :: string
  wo_created_at :: timestamp
  wo_updated_at :: timestamp
  wo_completed_at :: "timestamp option"

record WorkOrderItem =
  woi_id :: int
  woi_work_order_id :: int
  woi_item_id :: int
  woi_quantity_used :: int

record StockAdjustment =
  sa_id :: int
  sa_item_id :: int
  sa_adjustment_type :: StockAdjustmentType
  sa_quantity_change :: int
  sa_reason :: string
  sa_previous_stock :: int
  sa_new_stock :: int
  sa_adjusted_by :: string
  sa_created_at :: timestamp

text \<open>The database: the tables, and the sequences behind the \<^verbatim>\<open>serial\<close> keys of the
  tables the handlers insert into.\<close>

record db =
  usersTable :: "User list"
  itemsTable :: "Item list"
  suppliersTable :: "Supplier list"
  purchaseOrdersTable :: "PurchaseOrder list"
  purchaseOrderItemsTable :: "PurchaseOrderItem list"
  workOrdersTable :: "WorkOrder list"
  workOrderItemsTable :: "WorkOrderItem list"
  stockAdjustmentsTable :: "StockAdjustment list"
  itemsSeq :: int
  purchaseOrdersSeq :: int
  purchaseOrderItemsSeq :: int
  workOrdersSeq :: int
  workOrderItemsSeq :: int
  stockAdjustmentsSeq :: int

subsection \<open>Errors\<close>

datatype error =
    ItemNotFound int
    \<comment> \<open>\<^verbatim>\<open>Item with id ${id} not found\<close>\<close>
  | InsufficientStock int int
    \<comment> \<open>\<^verbatim>\<open>Insufficient stock. Current stock: ${previousStock}, attempted removal: ${abs}\<close>\<close>
  | NegativeCorrection int int
    \<comment> \<open>\<^verbatim>\<open>Stock correction would result in negative stock. Current stock: .., correction: ..\<close>\<close>
  | WorkOrderNotFound int
    \<comment> \<open>\<^verbatim>\<open>Work order with ID ${id} not found\<close>\<close>
  | MustBeInProgress WorkOrderStatus
    \<comment> \<open>\<^verbatim>\<open>Work order must be IN_PROGRESS to complete. Current status: ${status}\<close>\<close>
  | InsufficientStockForItem string int int
    \<comment> \<open>\<^verbatim>\<open>Insufficient stock for item ${sku or name}. Available: .., Required: ..\<close>\<close>
  | TechnicianNotFound
    \<comment> \<open>\<^verbatim>\<open>Assigned technician not found\<close>\<close>
  | MustHaveTechnicianRole
    \<comment> \<open>\<^verbatim>\<open>Assigned user must have TECHNICIAN role\<close>\<close>
  | SupplierNotFound int
    \<comment> \<open>\<^verbatim>\<open>Supplier with id ${id} not found\<close>\<close>
  | ItemsNotFound "int list"
    \<comment> \<open>\<^verbatim>\<open>Items with ids [${missingIds}] not found\<close>\<close>
  | UniqueViolation string
    \<comment> \<open>the database rejects a duplicate value in a \<^verbatim>\<open>unique()\<close> column\<close>
  | EmptyValues
    \<comment> \<open>the query builder rejects \<^verbatim>\<open>insert(...).values([])\<close>\<close>

subsection \<open>Queries\<close>

text \<open>\<^verbatim>\<open>db.update(t).set(f).where(p)\<close>: every row matching \<open>p\<close> is rewritten.\<close>

definition updateWhere :: "('r \<Rightarrow> bool) \<Rightarrow> ('r \<Rightarrow> 'r) \<Rightarrow> 'r list \<Rightarrow> 'r list" where
  "updateWhere p f rows = map (\<lambda>r. if p r then f r else r) rows"

text \<open>A \<^verbatim>\<open>numeric(p, 2)\<close> column keeps two decimals, rounding half away from zero.\<close>

definition numeric2 :: "rat \<Rightarrow> rat" where
  "numeric2 x =
     (if 0 \<le> x then of_int \<lfloor>x * 100 + 1 / 2\<rfloor> / 100
      else - (of_int \<lfloor>- x * 100 + 1 / 2\<rfloor> / 100))"

subsection \<open>\<^verbatim>\<open>adjustStock\<close> (\<^verbatim>\<open>handlers/adjust_stock.ts\<close>)\<close>

record AdjustStockInput =
  asi_item_id :: int
  asi_adjustment_type :: StockAdjustmentType
  asi_quantity_change :: int
  asi_reason :: string

text \<open>Step 2 and 3, the \<^verbatim>\<open>switch (input.adjustment_type)\<close>: the pair
  \<open>(actualQuantityChange, newStock)\<close>, or the error thrown.  The \<^verbatim>\<open>default\<close> branch is
  unreachable: \<open>StockAdjustmentType\<close> has the three constructors of the enum.\<close>

fun stockSwitch :: "StockAdjustmentType \<Rightarrow> int \<Rightarrow> int \<Rightarrow> error + int \<times> int" where
  "stockSwitch ADDITION quantity_change previousStock =
     (let actualQuantityChange = \<bar>quantity_change\<bar>;
          newStock = previousStock + actualQuantityChange
      in Inr (actualQuantityChange, newStock))"
| "stockSwitch REMOVAL quantity_change previousStock =
     (let actualQuantityChange = - \<bar>quantity_change\<bar>;
          newStock = previousStock + actualQuantityChange
      in if newStock < 0 then Inl (InsufficientStock previousStock \<bar>quantity_change\<bar>)
         else Inr (actualQuantityChange, newStock))"
| "stockSwitch CORRECTION quantity_change previousStock =
     (let actualQuantityChange = quantity_change;
          newStock = previousStock + actualQuantityChange
      in if newStock < 0 then Inl (NegativeCorrection previousStock quantity_change)
         else Inr (actualQuantityChange, newStock))"

text \<open>Step 4: \<^verbatim>\<open>update(itemsTable).set({current_stock, updated_at}).where(eq(id, ...))\<close>.\<close>

definition setStock :: "int \<Rightarrow> int \<Rightarrow> timestamp \<Rightarrow> db \<Rightarrow> db" where
  "setStock item_id newStock now d =
     d\<lparr>itemsTable :=
         updateWhere (\<lambda>r. i_id r = item_id)
           (\<lambda>r. r\<lparr>i_current_stock := newStock, i_updated_at := now\<rparr>) (itemsTable d)\<rparr>"

text \<open>Step 5: \<^verbatim>\<open>insert(stockAdjustmentsTable).values({...})\<close>; \<open>id\<close> and \<open>created_at\<close> are
  the column defaults.\<close>

definition newAdjustment ::
  "int \<Rightarrow> StockAdjustmentType \<Rightarrow> int \<Rightarrow> string \<Rightarrow> int \<Rightarrow> int \<Rightarrow> string \<Rightarrow> timestamp \<Rightarrow> db
     \<Rightarrow> StockAdjustment" where
  "newAdjustment item_id ty change reason previousStock newStock adjustedBy now d =
     \<lparr>sa_id = stockAdjustmentsSeq d, sa_item_id = item_id, sa_adjustment_type = ty,
      sa_quantity_change = change, sa_reason = reason, sa_previous_stock = previousStock,
      sa_new_stock = newStock, sa_adjusted_by = adjustedBy, sa_created_at = now\<rparr>"

definition insertAdjustment :: "StockAdjustment \<Rightarrow> db \<Rightarrow> db" where
  "insertAdjustment row d =
     d\<lparr>stockAdjustmentsTable := stockAdjustmentsTable d @ [row],
       stockAdjustmentsSeq := stockAdjustmentsSeq d + 1\<rparr>"

definition adjustStock ::
  "AdjustStockInput \<Rightarrow> string \<Rightarrow> timestamp \<Rightarrow> db \<Rightarrow> (error + StockAdjustment) \<times> db" where
  "adjustStock input adjustedBy now d =
     (case filter (\<lambda>r. i_id r = asi_item_id input) (itemsTable d) of
        [] \<Rightarrow> (Inl (ItemNotFound (asi_item_id input)), d)
      | item # _ \<Rightarrow>
          (let previousStock = i_current_stock item in
           case stockSwitch (asi_adjustment_type input) (asi_quantity_change input) previousStock of
             Inl e \<Rightarrow> (Inl e, d)
           | Inr (actualQuantityChange, newStock) \<Rightarrow>
               (let d1 = setStock (asi_item_id input) newStock now d;
                    row = newAdjustment (asi_item_id input) (asi_adjustment_type input)
                            actualQuantityChange (asi_reason input) previousStock newStock
                            adjustedBy now d1
                in (Inr row, insertAdjustment row d1))))"

text \<open>The ledger read: the \<open>current_stock\<close> a \<^verbatim>\<open>select ... where id = ...\<close> finds, taken
  from the first matching row as the handlers do.\<close>

definition stockOf :: "db \<Rightarrow> int \<Rightarrow> int option" where
  "stockOf d item_id = map_option i_current_stock (find (\<lambda>r. i_id r = item_id) (itemsTable d))"

subsection \<open>\<^verbatim>\<open>completeWorkOrder\<close> (\<^verbatim>\<open>handlers/complete_work_order.ts\<close>)\<close>

record CompleteWorkOrderInput =
  cwi_work_order_id :: int

text \<open>Steps 3 and 4, the \<^verbatim>\<open>for (const workOrderItem of workOrderItems)\<close> loop.  Each
  round reads the item, checks the stock, writes the new stock and inserts the audit
  row; a \<^verbatim>\<open>throw\<close> leaves the loop with the writes of the earlier rounds done.\<close>

fun deductLines ::
  "WorkOrder \<Rightarrow> timestamp \<Rightarrow> WorkOrderItem list \<Rightarrow> db \<Rightarrow> (error + unit) \<times> db" where
  "deductLines workOrder now [] d = (Inr (), d)"
| "deductLines workOrder now (workOrderItem # rest) d =
     (case filter (\<lambda>r. i_id r = woi_item_id workOrderItem) (itemsTable d) of
        [] \<Rightarrow> (Inl (ItemNotFound (woi_item_id workOrderItem)), d)
      | item # _ \<Rightarrow>
          (let previousStock = i_current_stock item;
               newStock = previousStock - woi_quantity_used workOrderItem
           in if newStock < 0
              then (Inl (InsufficientStockForItem (i_sku item) previousStock
                           (woi_quantity_used workOrderItem)), d)
              else
                (let d1 = setStock (woi_item_id workOrderItem) newStock now d;
                     row = newAdjustment (woi_item_id workOrderItem) REMOVAL
                             (- woi_quantity_used workOrderItem)
                             (''Work order completion: '' @ wo_work_order_number workOrder)
                             previousStock newStock (wo_assigned_technician workOrder) now d1
                 in deductLines workOrder now rest (insertAdjustment row d1))))"

text \<open>Step 5: \<^verbatim>\<open>update(workOrdersTable).set({status, completed_at, updated_at})\<close>.\<close>

definition markCompleted :: "timestamp \<Rightarrow> WorkOrder \<Rightarrow> WorkOrder" where
  "markCompleted completedAt w =
     w\<lparr>wo_status := COMPLETED, wo_completed_at := Some completedAt,
       wo_updated_at := completedAt\<rparr>"

text \<open>The handler.  \<open>updatedWorkOrderResults\<close> are the rows the update returns; the
  update matches the row read in step 1, so the list is not empty when step 6 takes its
  first element (the last branch is there for totality only).\<close>

definition completeWorkOrder ::
  "CompleteWorkOrderInput \<Rightarrow> timestamp \<Rightarrow> db \<Rightarrow> (error + WorkOrder) \<times> db" where
  "completeWorkOrder input now d =
     (case filter (\<lambda>w. wo_id w = cwi_work_order_id input) (workOrdersTable d) of
        [] \<Rightarrow> (Inl (WorkOrderNotFound (cwi_work_order_id input)), d)
      | workOrder # _ \<Rightarrow>
          if wo_status workOrder \<noteq> IN_PROGRESS
          then (Inl (MustBeInProgress (wo_status workOrder)), d)
          else
            (let workOrderItems =
                   filter (\<lambda>r. woi_work_order_id r = cwi_work_order_id input)
                     (workOrderItemsTable d)
             in case deductLines workOrder now workOrderItems d of
                  (Inl e, d1) \<Rightarrow> (Inl e, d1)
                | (Inr _, d1) \<Rightarrow>
                    (let completedAt = now;
                         d2 = d1\<lparr>workOrdersTable :=
                                  updateWhere (\<lambda>w. wo_id w = cwi_work_order_id input)
                                    (markCompleted completedAt) (workOrdersTable d1)\<rparr>;
                         updatedWorkOrderResults =
                           filter (\<lambda>w. wo_id w = cwi_work_order_id input) (workOrdersTable d2)
                     in case updatedWorkOrderResults of
                          r # _ \<Rightarrow> (Inr r, d2)
                        | [] \<Rightarrow> (Inl (WorkOrderNotFound (cwi_work_order_id input)), d2))))"

subsection \<open>\<^verbatim>\<open>createWorkOrder\<close> (\<^verbatim>\<open>handlers/create_work_order.ts\<close>)\<close>

record WorkOrderLine =
  wol_item_id :: int
  wol_quantity_used :: int

record CreateWorkOrderInput =
  cwo_description :: string
  cwo_assigned_technician :: string
  cwo_items :: "WorkOrderLine list"

text \<open>Step 3, the validation loop: the first error it throws, if any.  It writes nothing.\<close>

fun checkStock :: "WorkOrderLine list \<Rightarrow> db \<Rightarrow> error option" where
  "checkStock [] d = None"
| "checkStock (item # rest) d =
     (case filter (\<lambda>r. i_id r = wol_item_id item) (itemsTable d) of
        [] \<Rightarrow> Some (ItemNotFound (wol_item_id item))
      | dbItem # _ \<Rightarrow>
          if i_current_stock dbItem < wol_quantity_used item
          then Some (InsufficientStockForItem (i_name dbItem) (i_current_stock dbItem)
                       (wol_quantity_used item))
          else checkStock rest d)"

text \<open>The handler.  The work-order number is built from the clock in step 1; here it is
  the argument \<open>workOrderNumber\<close>.  The column is \<^verbatim>\<open>unique()\<close>: an insert with a number
  already present is rejected, after the sequence has moved.\<close>

definition createWorkOrder ::
  "CreateWorkOrderInput \<Rightarrow> string \<Rightarrow> string \<Rightarrow> timestamp \<Rightarrow> db \<Rightarrow> (error + WorkOrder) \<times> db" where
  "createWorkOrder input createdBy workOrderNumber now d =
     (case filter (\<lambda>u. u_clerk_id u = cwo_assigned_technician input) (usersTable d) of
        [] \<Rightarrow> (Inl TechnicianNotFound, d)
      | technician # _ \<Rightarrow>
          if u_role technician \<noteq> TECHNICIAN then (Inl MustHaveTechnicianRole, d)
          else
            (case checkStock (cwo_items input) d of
               Some e \<Rightarrow> (Inl e, d)
             | None \<Rightarrow>
                 if \<exists>w \<in> set (workOrdersTable d). wo_work_order_number w = workOrderNumber
                 then (Inl (UniqueViolation ''work_order_number''),
                       d\<lparr>workOrdersSeq := workOrdersSeq d + 1\<rparr>)
                 else
                   (let workOrder =
                          \<lparr>wo_id = workOrdersSeq d, wo_work_order_number = workOrderNumber,
                           wo_description = cwo_description input,
                           wo_assigned_technician = cwo_assigned_technician input,
                           wo_status = OPEN, wo_created_by = createdBy,
                           wo_created_at = now, wo_updated_at = now,
                           wo_completed_at = None\<rparr>;
                        d1 = d\<lparr>workOrdersTable := workOrdersTable d @ [workOrder],
                               workOrdersSeq := workOrdersSeq d + 1\<rparr>
                    in if cwo_items input = [] then (Inl EmptyValues, d1)
                       else
                         (let workOrderItems =
                                map (\<lambda>(k, item).
                                      \<lparr>woi_id = workOrderItemsSeq d1 + int k,
                                       woi_work_order_id = wo_id workOrder,
                                       woi_item_id = wol_item_id item,
                                       woi_quantity_used = wol_quantity_used item\<rparr>)
                                  (enumerate 0 (cwo_items input));
                              d2 = d1\<lparr>workOrderItemsTable :=
                                       workOrderItemsTable d1 @ workOrderItems,
                                     workOrderItemsSeq :=
                                       workOrderItemsSeq d1 + int (length workOrderItems)\<rparr>
                          in (Inr workOrder, d2)))))"

subsection \<open>\<^verbatim>\<open>createPurchaseOrder\<close> (\<^verbatim>\<open>handlers/create_purchase_order.ts\<close>)\<close>

record PurchaseOrderLine =
  pol_item_id :: int
  pol_quantity :: int
  pol_unit_price :: rat

text \<open>\<open>cpo_notes\<close> is \<open>None\<close> for both \<^verbatim>\<open>undefined\<close> and \<^verbatim>\<open>null\<close>: the handler reads the
  field only in \<^verbatim>\<open>input.notes || null\<close>.\<close>

record CreatePurchaseOrderInput =
  cpo_supplier_id :: int
  cpo_items :: "PurchaseOrderLine list"
  cpo_notes :: "string option"

text \<open>Step 4: \<^verbatim>\<open>input.items.reduce((sum, item) => sum + item.quantity * item.unit_price, 0)\<close>.\<close>

definition totalAmount :: "PurchaseOrderLine list \<Rightarrow> rat" where
  "totalAmount lines =
     foldl (\<lambda>sum item. sum + of_int (pol_quantity item) * pol_unit_price item) 0 lines"

text \<open>Step 3: the ids asked for, the rows \<^verbatim>\<open>inArray\<close> selects, and the ids reported
  missing.\<close>

definition existingItems :: "int list \<Rightarrow> db \<Rightarrow> Item list" where
  "existingItems itemIds d = filter (\<lambda>r. i_id r \<in> set itemIds) (itemsTable d)"

definition missingIds :: "int list \<Rightarrow> Item list \<Rightarrow> int list" where
  "missingIds itemIds found = filter (\<lambda>id. id \<notin> set (map i_id found)) itemIds"

text \<open>The handler.  The order number is built from the clock in step 1; here it is the
  argument \<open>poNumber\<close>, and the \<^verbatim>\<open>unique()\<close> column rejects a number already present,
  after the sequence has moved.  \<^verbatim>\<open>input.notes || null\<close> turns the empty string into
  \<^verbatim>\<open>null\<close> as well.  The amounts pass through \<^verbatim>\<open>toString()\<close> into \<^verbatim>\<open>numeric(p, 2)\<close>
  columns and come back through \<^verbatim>\<open>parseFloat\<close>: the value kept and returned is the
  rounded one.  With no lines at all, \<^verbatim>\<open>inArray\<close> selects nothing, the order is
  inserted, and the query builder then rejects \<^verbatim>\<open>values([])\<close>.\<close>

definition createPurchaseOrder ::
  "CreatePurchaseOrderInput \<Rightarrow> string \<Rightarrow> string \<Rightarrow> timestamp \<Rightarrow> db
     \<Rightarrow> (error + PurchaseOrder) \<times> db" where
  "createPurchaseOrder input createdBy poNumber now d =
     (case filter (\<lambda>s. s_id s = cpo_supplier_id input) (suppliersTable d) of
        [] \<Rightarrow> (Inl (SupplierNotFound (cpo_supplier_id input)), d)
      | _ # _ \<Rightarrow>
          (let itemIds = map pol_item_id (cpo_items input);
               found = existingItems itemIds d
           in if length found \<noteq> length itemIds
              then (Inl (ItemsNotFound (missingIds itemIds found)), d)
              else if \<exists>p \<in> set (purchaseOrdersTable d). po_po_number p = poNumber
              then (Inl (UniqueViolation ''po_number''),
                    d\<lparr>purchaseOrdersSeq := purchaseOrdersSeq d + 1\<rparr>)
              else
                (let purchaseOrder =
                       \<lparr>po_id = purchaseOrdersSeq d, po_po_number = poNumber,
                        po_supplier_id = cpo_supplier_id input, po_status = DRAFT,
                        po_total_amount = numeric2 (totalAmount (cpo_items input)),
                        po_notes = (case cpo_notes input of
                                      None \<Rightarrow> None
                                    | Some n \<Rightarrow> if n = [] then None else Some n),
                        po_created_by = createdBy, po_created_at = now,
                        po_updated_at = now\<rparr>;
                     d1 = d\<lparr>purchaseOrdersTable := purchaseOrdersTable d @ [purchaseOrder],
                            purchaseOrdersSeq := purchaseOrdersSeq d + 1\<rparr>
                 in if cpo_items input = [] then (Inl EmptyValues, d1)
                    else
                      (let purchaseOrderItems =
                             map (\<lambda>(k, item).
                                   \<lparr>poi_id = purchaseOrderItemsSeq d1 + int k,
                                    poi_po_id = po_id purchaseOrder,
                                    poi_item_id = pol_item_id item,
                                    poi_quantity = pol_quantity item,
                                    poi_unit_price = numeric2 (pol_unit_price item),
                                    poi_total_price =
                                      numeric2 (of_int (pol_quantity item) * pol_unit_price item)\<rparr>)
                               (enumerate 0 (cpo_items input));
                           d2 = d1\<lparr>purchaseOrderItemsTable :=
                                    purchaseOrderItemsTable d1 @ purchaseOrderItems,
                                  purchaseOrderItemsSeq :=
                                    purchaseOrderItemsSeq d1 + int (length purchaseOrderItems)\<rparr>
                       in (Inr purchaseOrder, d2)))))"

subsection \<open>\<^verbatim>\<open>updateItem\<close> (\<^verbatim>\<open>handlers/update_item.ts\<close>)\<close>

text \<open>\<^verbatim>\<open>updateItemInputSchema\<close>: every field but \<open>id\<close> is optional (\<open>None\<close> is
  \<^verbatim>\<open>undefined\<close>); \<open>description\<close> is nullable as well.  The schema has no \<open>current_stock\<close>.\<close>

record UpdateItemInput =
  uii_id :: int
  uii_sku :: "string option"
  uii_name :: "string option"
  uii_description :: "string option option"
  uii_minimum_stock :: "int option"
  uii_unit_price :: "rat option"

text \<open>The \<open>updateData\<close> object, as the change \<^verbatim>\<open>.set(updateData)\<close> makes to a row.\<close>

definition updateData :: "UpdateItemInput \<Rightarrow> timestamp \<Rightarrow> Item \<Rightarrow> Item" where
  "updateData input now r =
     (let r0 = r\<lparr>i_updated_at := now\<rparr>;
          r1 = (case uii_sku input of None \<Rightarrow> r0 | Some v \<Rightarrow> r0\<lparr>i_sku := v\<rparr>);
          r2 = (case uii_name input of None \<Rightarrow> r1 | Some v \<Rightarrow> r1\<lparr>i_name := v\<rparr>);
          r3 = (case uii_description input of None \<Rightarrow> r2 | Some v \<Rightarrow> r2\<lparr>i_description := v\<rparr>);
          r4 = (case uii_minimum_stock input of
                  None \<Rightarrow> r3 | Some v \<Rightarrow> r3\<lparr>i_minimum_stock := v\<rparr>);
          r5 = (case uii_unit_price input of
                  None \<Rightarrow> r4 | Some v \<Rightarrow> r4\<lparr>i_unit_price := numeric2 v\<rparr>)
      in r5)"

text \<open>The handler.  \<open>sku\<close> is \<^verbatim>\<open>unique()\<close>: the update is rejected when another item has
  the new SKU.  \<open>result\<close> are the rows the update returns, not empty since the item
  exists (the last branch is there for totality only).\<close>

definition updateItem :: "UpdateItemInput \<Rightarrow> timestamp \<Rightarrow> db \<Rightarrow> (error + Item) \<times> db" where
  "updateItem input now d =
     (case filter (\<lambda>r. i_id r = uii_id input) (itemsTable d) of
        [] \<Rightarrow> (Inl (ItemNotFound (uii_id input)), d)
      | _ # _ \<Rightarrow>
          if (case uii_sku input of
                None \<Rightarrow> False
              | Some v \<Rightarrow> \<exists>r \<in> set (itemsTable d). i_id r \<noteq> uii_id input \<and> i_sku r = v)
          then (Inl (UniqueViolation ''sku''), d)
          else
            (let d1 = d\<lparr>itemsTable :=
                         updateWhere (\<lambda>r. i_id r = uii_id input) (updateData input now)
                           (itemsTable d)\<rparr>;
                 result = filter (\<lambda>r. i_id r = uii_id input) (itemsTable d1)
             in case result of
                  updatedItem # _ \<Rightarrow> (Inr updatedItem, d1)
                | [] \<Rightarrow> (Inl (ItemNotFound (uii_id input)), d1)))"

subsection \<open>\<^verbatim>\<open>createItem\<close> (\<^verbatim>\<open>handlers/create_item.ts\<close>)\<close>

text \<open>\<^verbatim>\<open>createItemInputSchema\<close>; \<open>ci_description\<close> is \<open>None\<close> for \<^verbatim>\<open>undefined\<close> and \<^verbatim>\<open>null\<close>,
  and \<^verbatim>\<open>input.description || null\<close> stores the empty string as \<^verbatim>\<open>null\<close> too.\<close>

record CreateItemInput =
  ci_sku :: string
  ci_name :: string
  ci_description :: "string option"
  ci_current_stock :: int
  ci_minimum_stock :: int
  ci_unit_price :: rat

definition createItem :: "CreateItemInput \<Rightarrow> timestamp \<Rightarrow> db \<Rightarrow> (error + Item) \<times> db" where
  "createItem input now d =
     (if \<exists>r \<in> set (itemsTable d). i_sku r = ci_sku input
      then (Inl (UniqueViolation ''sku''), d\<lparr>itemsSeq := itemsSeq d + 1\<rparr>)
      else
        (let item =
               \<lparr>i_id = itemsSeq d, i_sku = ci_sku input, i_name = ci_name input,
                i_description = (case ci_description input of
                                   None \<Rightarrow> None
                                 | Some t \<Rightarrow> if t = [] then None else Some t),
                i_current_stock = ci_current_stock input,
                i_minimum_stock = ci_minimum_stock input,
                i_unit_price = numeric2 (ci_unit_price input),
                i_created_at = now, i_updated_at = now\<rparr>
         in (Inr item, d\<lparr>itemsTable := itemsTable d @ [item], itemsSeq := itemsSeq d + 1\<rparr>)))"

subsection \<open>The properties the theorems speak of\<close>

text \<open>The ledger invariant: no item has a negative \<open>current_stock\<close>.\<close>

definition stockNonNegative :: "db \<Rightarrow> bool" where
  "stockNonNegative d = list_all (\<lambda>r. 0 \<le> i_current_stock r) (itemsTable d)"

text \<open>The stock column, row by row.\<close>

definition stockColumn :: "db \<Rightarrow> int list" where
  "stockColumn d = map i_current_stock (itemsTable d)"

text \<open>The audit rows a call has added: the adjustments table only grows at its end, so
  these are the rows of the later state beyond the length of the earlier one.\<close>

definition inserted :: "db \<Rightarrow> db \<Rightarrow> StockAdjustment list" where
  "inserted d d' = drop (length (stockAdjustmentsTable d)) (stockAdjustmentsTable d')"

definition ledgerEquation :: "StockAdjustment \<Rightarrow> bool" where
  "ledgerEquation r = (sa_new_stock r = sa_previous_stock r + sa_quantity_change r)"

text \<open>The sign rule as the spec words it (positive for an addition, negative for a
  removal), and the rule with zero admitted.\<close>

definition signStrict :: "StockAdjustment \<Rightarrow> bool" where
  "signStrict r =
     (case sa_adjustment_type r of
        ADDITION \<Rightarrow> 0 < sa_quantity_change r
      | REMOVAL \<Rightarrow> sa_quantity_change r < 0
      | CORRECTION \<Rightarrow> True)"

definition signWeak :: "StockAdjustment \<Rightarrow> bool" where
  "signWeak r =
     (case sa_adjustment_type r of
        ADDITION \<Rightarrow> 0 \<le> sa_quantity_change r
      | REMOVAL \<Rightarrow> sa_quantity_change r \<le> 0
      | CORRECTION \<Rightarrow> True)"

text \<open>The spec's normalisation of the delta, in its words: \<open>ADDITION\<close> adds the
  magnitude, \<open>REMOVAL\<close> subtracts it, \<open>CORRECTION\<close> applies the change as it is.\<close>

fun signedDelta :: "StockAdjustmentType \<Rightarrow> int \<Rightarrow> int" where
  "signedDelta ADDITION quantityChange = \<bar>quantityChange\<bar>"
| "signedDelta REMOVAL quantityChange = - \<bar>quantityChange\<bar>"
| "signedDelta CORRECTION quantityChange = quantityChange"

text \<open>The lines of a work order, as step 2 of \<open>completeWorkOrder\<close> selects them, and the
  quantity they plan to use of one item.\<close>

definition linesOf :: "db \<Rightarrow> int \<Rightarrow> WorkOrderItem list" where
  "linesOf d work_order_id =
     filter (\<lambda>r. woi_work_order_id r = work_order_id) (workOrderItemsTable d)"

definition plannedUse :: "WorkOrderItem list \<Rightarrow> int \<Rightarrow> int" where
  "plannedUse lines item_id =
     sum_list (map woi_quantity_used (filter (\<lambda>l. woi_item_id l = item_id) lines))"

text \<open>The audit row \<open>completeWorkOrder\<close> writes for a line of a work order: a \<open>REMOVAL\<close> of
  the line's item by the quantity used, the reason naming the work order's number, the
  actor being the assigned technician.\<close>

definition auditRowFor :: "WorkOrder \<Rightarrow> StockAdjustment \<Rightarrow> WorkOrderItem \<Rightarrow> bool" where
  "auditRowFor workOrder r l =
     (sa_item_id r = woi_item_id l \<and> sa_adjustment_type r = REMOVAL \<and>
      sa_quantity_change r = - woi_quantity_used l \<and>
      sa_reason r = ''Work order completion: '' @ wo_work_order_number workOrder \<and>
      sa_adjusted_by r = wo_assigned_technician workOrder \<and>
      sa_new_stock r = sa_previous_stock r - woi_quantity_used l)"





subsection \<open>Example data (the fixtures of the handlers' tests)\<close>

definition exampleItem :: "int \<Rightarrow> string \<Rightarrow> int \<Rightarrow> Item" where
  "exampleItem n sku stock =
     \<lparr>i_id = n, i_sku = sku, i_name = ''Test Item'', i_description = None,
      i_current_stock = stock, i_minimum_stock = 10, i_unit_price = 51 / 2,
      i_created_at = 0, i_updated_at = 0\<rparr>"

definition exampleWorkOrder :: "WorkOrderStatus \<Rightarrow> WorkOrder" where
  "exampleWorkOrder st =
     \<lparr>wo_id = 1, wo_work_order_number = ''WO-TEST-001'',
      wo_description = ''Test work order'', wo_assigned_technician = ''tech_clerk_123'',
      wo_status = st, wo_created_by = ''tech_clerk_123'', wo_created_at = 0,
      wo_updated_at = 0, wo_completed_at = None\<rparr>"

text \<open>Two items with the given stocks, a technician, a supplier, and one work order in
  the given status with the lines (item 1, quantity 5) and (item 2, quantity 3).\<close>

definition exampleDb :: "int \<Rightarrow> int \<Rightarrow> WorkOrderStatus \<Rightarrow> db" where
  "exampleDb stock1 stock2 st =
     \<lparr>usersTable =
        [\<lparr>u_id = 1, u_clerk_id = ''tech_clerk_123'', u_email = ''tech@example.com'',
          u_name = ''Test Technician'', u_role = TECHNICIAN, u_created_at = 0,
          u_updated_at = 0\<rparr>],
      itemsTable = [exampleItem 1 ''ITEM001'' stock1, exampleItem 2 ''ITEM002'' stock2],
      suppliersTable =
        [\<lparr>s_id = 1, s_name = ''Test Supplier'', s_contact_email = None,
          s_contact_phone = None, s_address = None, s_bank_account = None,
          s_tax_id = None, s_created_at = 0, s_updated_at = 0\<rparr>],
      purchaseOrdersTable = [],
      purchaseOrderItemsTable = [],
      workOrdersTable = [exampleWorkOrder st],
      workOrderItemsTable =
        [\<lparr>woi_id = 1, woi_work_order_id = 1, woi_item_id = 1, woi_quantity_used = 5\<rparr>,
         \<lparr>woi_id = 2, woi_work_order_id = 1, woi_item_id = 2, woi_quantity_used = 3\<rparr>],
      stockAdjustmentsTable = [],
      itemsSeq = 3, purchaseOrdersSeq = 1, purchaseOrderItemsSeq = 1, workOrdersSeq = 2,
      workOrderItemsSeq = 3, stockAdjustmentsSeq = 1\<rparr>"

definition exampleAdjust :: "StockAdjustmentType \<Rightarrow> int \<Rightarrow> string \<Rightarrow> AdjustStockInput" where
  "exampleAdjust ty q reason =
     \<lparr>asi_item_id = 1, asi_adjustment_type = ty, asi_quantity_change = q,
      asi_reason = reason\<rparr>"

definition examplePurchase :: "PurchaseOrderLine list \<Rightarrow> CreatePurchaseOrderInput" where
  "examplePurchase lines = \<lparr>cpo_supplier_id = 1, cpo_items = lines, cpo_notes = None\<rparr>"

definition exampleWorkOrderInput :: CreateWorkOrderInput where
  "exampleWorkOrderInput =
     \<lparr>cwo_description = ''Replace filter'', cwo_assigned_technician = ''tech_clerk_123'',
      cwo_items = [\<lparr>wol_item_id = 1, wol_quantity_used = 5\<rparr>]\<rparr>"

definition exampleUpdate :: UpdateItemInput where
  "exampleUpdate =
     \<lparr>uii_id = 1, uii_sku = None, uii_name = Some ''Updated Item'', uii_description = None,
      uii_minimum_stock = None, uii_unit_price = None\<rparr>"

section \<open>Lemmas on the queries\<close>

lemma updateWhere_length: "length (updateWhere p f rows) = length rows"
  by (simp add: updateWhere_def)

lemma find_filter: "find p xs = (case filter p xs of [] \<Rightarrow> None | x # _ \<Rightarrow> Some x)"
  by (induction xs) auto

lemma stockOf_filter:
  "stockOf d n = (case filter (\<lambda>r. i_id r = n) (itemsTable d) of [] \<Rightarrow> None | x # _ \<Rightarrow> Some (i_current_stock x))"
  by (simp add: stockOf_def find_filter split: list.splits)

lemma find_updateWhere:
  assumes "\<And>r. i_id (f r) = i_id r"
  shows "find (\<lambda>r. i_id r = j) (updateWhere (\<lambda>r. i_id r = n) f rows) =
         map_option (\<lambda>r. if j = n then f r else r) (find (\<lambda>r. i_id r = j) rows)"
  using assms by (induction rows) (auto simp: updateWhere_def)

lemma stockOf_setStock:
  "stockOf (setStock n v now d) j = (if j = n then map_option (\<lambda>_. v) (stockOf d j) else stockOf d j)"
  by (simp add: stockOf_def setStock_def find_updateWhere option.map_comp comp_def option.map_ident)

lemma stockOf_insertAdjustment: "stockOf (insertAdjustment row d) j = stockOf d j"
  by (simp add: stockOf_def insertAdjustment_def)

lemma exampleDb_stock1: "stockOf (exampleDb s1 s2 st) 1 = Some s1"
  by (simp add: stockOf_def exampleDb_def exampleItem_def)

lemma exampleDb_stock2: "stockOf (exampleDb s1 s2 st) 2 = Some s2"
  by (simp add: stockOf_def exampleDb_def exampleItem_def)

lemmas example_defs = exampleAdjust_def exampleDb_def exampleItem_def exampleWorkOrder_def

lemmas run_adjustStock = adjustStock_def setStock_def updateWhere_def newAdjustment_def
  insertAdjustment_def stockOf_def inserted_def Let_def

lemmas run_completeWorkOrder = completeWorkOrder_def deductLines.simps markCompleted_def
  linesOf_def plannedUse_def auditRowFor_def


section \<open>\<open>adjustStock\<close>\<close>

text \<open>The handler, case by case: the item is missing; the item is there and the switch
  decides.\<close>

lemma adjustStock_not_found:
  "stockOf d (asi_item_id input) = None \<Longrightarrow>
   adjustStock input adjustedBy now d = (Inl (ItemNotFound (asi_item_id input)), d)"
  by (simp add: adjustStock_def stockOf_filter split: list.splits)

lemma adjustStock_found:
  "stockOf d (asi_item_id input) = Some previousStock \<Longrightarrow>
   adjustStock input adjustedBy now d =
     (case stockSwitch (asi_adjustment_type input) (asi_quantity_change input) previousStock of
        Inl e \<Rightarrow> (Inl e, d)
      | Inr (actualQuantityChange, newStock) \<Rightarrow>
          (let d1 = setStock (asi_item_id input) newStock now d;
               row = newAdjustment (asi_item_id input) (asi_adjustment_type input)
                       actualQuantityChange (asi_reason input) previousStock newStock
                       adjustedBy now d1
           in (Inr row, insertAdjustment row d1)))"
  by (auto simp add: adjustStock_def stockOf_filter Let_def split: list.splits)

lemma stockSwitch_cases:
  "stockSwitch ty q p =
     (if ty = REMOVAL \<and> p - \<bar>q\<bar> < 0 then Inl (InsufficientStock p \<bar>q\<bar>)
      else if ty = CORRECTION \<and> p + q < 0 then Inl (NegativeCorrection p q)
      else Inr (signedDelta ty q, p + signedDelta ty q))"
  by (cases ty) (simp_all add: Let_def)

lemma inserted_insertAdjustment_setStock:
  "inserted d (insertAdjustment row (setStock n v now d)) = [row]"
  by (simp add: inserted_def insertAdjustment_def setStock_def)






text \<open>
  \<^bold>\<open>C8.\<close>  The claim as stated fails: \<open>adjustStockInputSchema\<close> declares
  \<^verbatim>\<open>reason: z.string()\<close>, which admits the empty string, and the handler never looks at
  the reason.  With the empty reason the test fixture's \<open>ADDITION\<close> of 50 succeeds, moves
  the stock from 100 to 150 and persists a row whose reason is empty.
\<close>

theorem adjustStock_empty_reason_counterexample:
  "fst (adjustStock (exampleAdjust ADDITION 50 []) ''user_test123'' 7
          (exampleDb 100 30 IN_PROGRESS)) =
     Inr \<lparr>sa_id = 1, sa_item_id = 1, sa_adjustment_type = ADDITION, sa_quantity_change = 50,
          sa_reason = [], sa_previous_stock = 100, sa_new_stock = 150,
          sa_adjusted_by = ''user_test123'', sa_created_at = 7\<rparr> \<and>
   stockOf (snd (adjustStock (exampleAdjust ADDITION 50 []) ''user_test123'' 7
                   (exampleDb 100 30 IN_PROGRESS))) 1 = Some 150 \<and>
   length (stockAdjustmentsTable
             (snd (adjustStock (exampleAdjust ADDITION 50 []) ''user_test123'' 7
                     (exampleDb 100 30 IN_PROGRESS)))) = 1"
  by (simp add: run_adjustStock example_defs)

text \<open>
  \<^bold>\<open>C8, amended.\<close>  The reason is an opaque string, possibly empty: replacing the reason
  of a call by any other one changes neither whether the call fails, nor the error,
  nor the items table; a successful call returns and inserts the same row with the
  given reason stored verbatim.
\<close>

theorem adjustStock_reason_opaque:
  "(\<forall>e. fst (adjustStock (input\<lparr>asi_reason := reason\<rparr>) adjustedBy now d) = Inl e \<longleftrightarrow>
         fst (adjustStock input adjustedBy now d) = Inl e) \<and>
   itemsTable (snd (adjustStock (input\<lparr>asi_reason := reason\<rparr>) adjustedBy now d)) =
     itemsTable (snd (adjustStock input adjustedBy now d)) \<and>
   (\<forall>row. fst (adjustStock input adjustedBy now d) = Inr row \<longrightarrow>
      fst (adjustStock (input\<lparr>asi_reason := reason\<rparr>) adjustedBy now d) =
        Inr (row\<lparr>sa_reason := reason\<rparr>) \<and>
      inserted d (snd (adjustStock (input\<lparr>asi_reason := reason\<rparr>) adjustedBy now d)) =
        [row\<lparr>sa_reason := reason\<rparr>])"
  by (auto simp: adjustStock_def Let_def newAdjustment_def inserted_def insertAdjustment_def
      setStock_def split: list.splits sum.splits prod.splits)

theorem adjustStock_reason_opaque_witness:
  "fst (adjustStock (exampleAdjust ADDITION 50 ''restock'') ''u'' 7 (exampleDb 100 30 IN_PROGRESS)) =
     Inr \<lparr>sa_id = 1, sa_item_id = 1, sa_adjustment_type = ADDITION, sa_quantity_change = 50,
          sa_reason = ''restock'', sa_previous_stock = 100, sa_new_stock = 150,
          sa_adjusted_by = ''u'', sa_created_at = 7\<rparr> \<and>
   fst (adjustStock (exampleAdjust ADDITION 50 []) ''u'' 7 (exampleDb 100 30 IN_PROGRESS)) =
     Inr \<lparr>sa_id = 1, sa_item_id = 1, sa_adjustment_type = ADDITION, sa_quantity_change = 50,
          sa_reason = [], sa_previous_stock = 100, sa_new_stock = 150,
          sa_adjusted_by = ''u'', sa_created_at = 7\<rparr>"
proof -
  let ?d = "exampleDb 100 30 IN_PROGRESS"
  have 1: "fst (adjustStock (exampleAdjust ADDITION 50 ''restock'') ''u'' 7 ?d) =
     Inr \<lparr>sa_id = 1, sa_item_id = 1, sa_adjustment_type = ADDITION, sa_quantity_change = 50,
          sa_reason = ''restock'', sa_previous_stock = 100, sa_new_stock = 150,
          sa_adjusted_by = ''u'', sa_created_at = 7\<rparr>"
    by (simp add: run_adjustStock example_defs)
  have e: "exampleAdjust ADDITION 50 [] = (exampleAdjust ADDITION 50 ''restock'')\<lparr>asi_reason := []\<rparr>"
    by (simp add: exampleAdjust_def)
  from adjustStock_reason_opaque [where input = "exampleAdjust ADDITION 50 ''restock''"
      and reason = "[]" and adjustedBy = "''u''" and now = 7 and d = ?d] 1
  have "fst (adjustStock (exampleAdjust ADDITION 50 []) ''u'' 7 ?d) =
     Inr \<lparr>sa_id = 1, sa_item_id = 1, sa_adjustment_type = ADDITION, sa_quantity_change = 50,
          sa_reason = [], sa_previous_stock = 100, sa_new_stock = 150,
          sa_adjusted_by = ''u'', sa_created_at = 7\<rparr>"
    unfolding e by simp
  with 1 show ?thesis by simp
qed

section \<open>\<open>completeWorkOrder\<close>\<close>

subsection \<open>The deduction loop\<close>

text \<open>One round of the loop, read through the ledger: the item is missing, the stock
  is short, or the stock is written, the audit row inserted and the loop goes on.\<close>

lemma deductLines_step:
  "deductLines workOrder now (l # rest) d =
     (case stockOf d (woi_item_id l) of
        None \<Rightarrow> (Inl (ItemNotFound (woi_item_id l)), d)
      | Some previousStock \<Rightarrow>
          if previousStock - woi_quantity_used l < 0
          then (Inl (InsufficientStockForItem
                  (i_sku (the (find (\<lambda>r. i_id r = woi_item_id l) (itemsTable d))))
                  previousStock (woi_quantity_used l)), d)
          else deductLines workOrder now rest
                 (insertAdjustment
                    (newAdjustment (woi_item_id l) REMOVAL (- woi_quantity_used l)
                       (''Work order completion: '' @ wo_work_order_number workOrder)
                       previousStock (previousStock - woi_quantity_used l)
                       (wo_assigned_technician workOrder) now
                       (setStock (woi_item_id l) (previousStock - woi_quantity_used l) now d))
                    (setStock (woi_item_id l) (previousStock - woi_quantity_used l) now d)))"
  by (auto simp: stockOf_filter find_filter Let_def split: list.splits)

declare deductLines.simps(2) [simp del]

lemma deductLines_frame:
  "workOrdersTable (snd (deductLines workOrder now ls d)) = workOrdersTable d \<and>
   workOrderItemsTable (snd (deductLines workOrder now ls d)) = workOrderItemsTable d \<and>
   map i_id (itemsTable (snd (deductLines workOrder now ls d))) = map i_id (itemsTable d)"
proof (induction ls arbitrary: d)
  case Nil
  show ?case by simp
next
  case (Cons l ls)
  show ?case
    by (simp add: deductLines_step Cons.IH insertAdjustment_def setStock_def updateWhere_def
        comp_def split: option.splits)
qed

lemma deductLines_success:
  assumes "deductLines workOrder now ls d = (Inr u, d')"
  shows "\<exists>rows. stockAdjustmentsTable d' = stockAdjustmentsTable d @ rows \<and>
           list_all2 (auditRowFor workOrder) rows ls \<and>
           (\<forall>i. stockOf d' i = map_option (\<lambda>s. s - plannedUse ls i) (stockOf d i))"
  using assms
proof (induction ls arbitrary: d)
  case Nil
  then show ?case by (simp add: plannedUse_def option.map_ident)
next
  case (Cons l ls)
  from Cons.prems obtain previousStock where
    p: "stockOf d (woi_item_id l) = Some previousStock"
    and ge: "\<not> previousStock - woi_quantity_used l < 0"
    by (auto simp: deductLines_step split: option.splits if_splits)
  define d1 where "d1 = setStock (woi_item_id l) (previousStock - woi_quantity_used l) now d"
  define row where "row = newAdjustment (woi_item_id l) REMOVAL (- woi_quantity_used l)
                       (''Work order completion: '' @ wo_work_order_number workOrder)
                       previousStock (previousStock - woi_quantity_used l)
                       (wo_assigned_technician workOrder) now d1"
  from Cons.prems p ge have rec: "deductLines workOrder now ls (insertAdjustment row d1) = (Inr u, d')"
    by (simp add: deductLines_step d1_def row_def)
  from Cons.IH [OF rec] obtain rows where
    r1: "stockAdjustmentsTable d' = stockAdjustmentsTable (insertAdjustment row d1) @ rows"
    and r2: "list_all2 (auditRowFor workOrder) rows ls"
    and r3: "\<And>i. stockOf d' i = map_option (\<lambda>s. s - plannedUse ls i) (stockOf (insertAdjustment row d1) i)"
    by blast
  have a: "stockAdjustmentsTable d' = stockAdjustmentsTable d @ (row # rows)"
    using r1 by (simp add: insertAdjustment_def d1_def setStock_def)
  have b: "auditRowFor workOrder row l"
    by (simp add: auditRowFor_def row_def newAdjustment_def)
  have c: "stockOf d' i = map_option (\<lambda>s. s - plannedUse (l # ls) i) (stockOf d i)" for i
    using p by (cases "stockOf d i")
      (auto simp: r3 stockOf_insertAdjustment d1_def stockOf_setStock plannedUse_def)
  from a b c r2 show ?case
    by (intro exI [of _ "row # rows"]) simp
qed

lemma deductLines_failure:
  assumes "deductLines workOrder now ls d = (Inl e, d')"
  shows "\<exists>pre l post. ls = pre @ l # post \<and>
           deductLines workOrder now pre d = (Inr (), d') \<and>
           deductLines workOrder now [l] d' = (Inl e, d')"
  using assms
proof (induction ls arbitrary: d)
  case Nil
  then show ?case by simp
next
  case (Cons l ls)
  show ?case
  proof (cases "fst (deductLines workOrder now [l] d)")
    case (Inl e')
    then have f: "deductLines workOrder now [l] d = (Inl e, d') \<and> d' = d"
      using Cons.prems by (auto simp: deductLines_step split: option.splits if_splits)
    have "l # ls = [] @ l # ls \<and> deductLines workOrder now [] d = (Inr (), d') \<and>
          deductLines workOrder now [l] d' = (Inl e, d')"
      using f by simp
    then show ?thesis by blast
  next
    case (Inr u)
    then obtain previousStock where
      p: "stockOf d (woi_item_id l) = Some previousStock"
      and ge: "\<not> previousStock - woi_quantity_used l < 0"
      by (auto simp: deductLines_step split: option.splits if_splits)
    define d2 where "d2 = snd (deductLines workOrder now [l] d)"
    have one: "deductLines workOrder now [l] d = (Inr (), d2)"
      using p ge by (simp add: d2_def deductLines_step)
    have rec: "deductLines workOrder now ls d2 = (Inl e, d')"
      using Cons.prems p ge by (simp add: d2_def deductLines_step)
    from Cons.IH [OF rec] obtain pre l' post where
      s: "ls = pre @ l' # post" and
      q1: "deductLines workOrder now pre d2 = (Inr (), d')" and
      q2: "deductLines workOrder now [l'] d' = (Inl e, d')"
      by blast
    have "deductLines workOrder now (l # pre) d = (Inr (), d')"
      using p ge q1 by (simp add: d2_def deductLines_step)
    with s q2 have "l # ls = (l # pre) @ l' # post \<and>
          deductLines workOrder now (l # pre) d = (Inr (), d') \<and>
          deductLines workOrder now [l'] d' = (Inl e, d')"
      by simp
    then show ?thesis by blast
  qed
qed

subsection \<open>The handler, case by case\<close>

lemma find_updateWhere_wo:
  assumes "\<And>r. wo_id (f r) = wo_id r"
  shows "find (\<lambda>w. wo_id w = n) (updateWhere (\<lambda>w. wo_id w = n) f rows) =
         map_option f (find (\<lambda>w. wo_id w = n) rows)"
  using assms by (induction rows) (auto simp: updateWhere_def)

lemma filter_updateWhere_wo:
  assumes "\<And>r. wo_id (f r) = wo_id r"
  shows "filter (\<lambda>w. wo_id w = n) (updateWhere (\<lambda>w. wo_id w = n) f rows) =
         map f (filter (\<lambda>w. wo_id w = n) rows)"
  using assms by (induction rows) (auto simp: updateWhere_def)

lemma completeWorkOrder_not_found:
  "find (\<lambda>w. wo_id w = cwi_work_order_id input) (workOrdersTable d) = None \<Longrightarrow>
   completeWorkOrder input now d = (Inl (WorkOrderNotFound (cwi_work_order_id input)), d)"
  by (simp add: completeWorkOrder_def find_filter split: list.splits)

lemma completeWorkOrder_wrong_status:
  "find (\<lambda>w. wo_id w = cwi_work_order_id input) (workOrdersTable d) = Some workOrder \<Longrightarrow>
   wo_status workOrder \<noteq> IN_PROGRESS \<Longrightarrow>
   completeWorkOrder input now d = (Inl (MustBeInProgress (wo_status workOrder)), d)"
  by (simp add: completeWorkOrder_def find_filter split: list.splits)

lemma completeWorkOrder_in_progress:
  assumes f: "find (\<lambda>w. wo_id w = cwi_work_order_id input) (workOrdersTable d) = Some workOrder"
    and st: "wo_status workOrder = IN_PROGRESS"
  shows "completeWorkOrder input now d =
     (case deductLines workOrder now (linesOf d (cwi_work_order_id input)) d of
        (Inl e, d1) \<Rightarrow> (Inl e, d1)
      | (Inr u, d1) \<Rightarrow>
          (Inr (markCompleted now workOrder),
           d1\<lparr>workOrdersTable :=
                updateWhere (\<lambda>w. wo_id w = cwi_work_order_id input) (markCompleted now)
                  (workOrdersTable d)\<rparr>))"
proof -
  obtain rest where fl: "filter (\<lambda>w. wo_id w = cwi_work_order_id input) (workOrdersTable d) = workOrder # rest"
    using f by (auto simp: find_filter split: list.splits)
  obtain res d1 where dl: "deductLines workOrder now (linesOf d (cwi_work_order_id input)) d = (res, d1)"
    by (cases "deductLines workOrder now (linesOf d (cwi_work_order_id input)) d")
  have fr: "workOrdersTable d1 = workOrdersTable d"
    using deductLines_frame [of workOrder now "linesOf d (cwi_work_order_id input)" d] dl by simp
  have m: "\<And>r. wo_id (markCompleted now r) = wo_id r"
    by (simp add: markCompleted_def)
  show ?thesis
    using dl
    by (cases res)
      (simp_all add: completeWorkOrder_def fl st linesOf_def Let_def fr filter_updateWhere_wo [OF m])
qed

lemma completeWorkOrder_cases:
  obtains
    (missing) "find (\<lambda>w. wo_id w = cwi_work_order_id input) (workOrdersTable d) = None"
  | (wrong) workOrder where
      "find (\<lambda>w. wo_id w = cwi_work_order_id input) (workOrdersTable d) = Some workOrder"
      "wo_status workOrder \<noteq> IN_PROGRESS"
  | (ready) workOrder where
      "find (\<lambda>w. wo_id w = cwi_work_order_id input) (workOrdersTable d) = Some workOrder"
      "wo_status workOrder = IN_PROGRESS"
  by (cases "find (\<lambda>w. wo_id w = cwi_work_order_id input) (workOrdersTable d)") auto

lemma completeWorkOrder_Inr:
  assumes "completeWorkOrder input now d = (Inr w, d')"
  obtains workOrder d1 where
    "find (\<lambda>w. wo_id w = cwi_work_order_id input) (workOrdersTable d) = Some workOrder"
    "wo_status workOrder = IN_PROGRESS"
    "deductLines workOrder now (linesOf d (cwi_work_order_id input)) d = (Inr (), d1)"
    "w = markCompleted now workOrder"
    "d' = d1\<lparr>workOrdersTable :=
                updateWhere (\<lambda>w. wo_id w = cwi_work_order_id input) (markCompleted now)
                  (workOrdersTable d)\<rparr>"
proof (cases rule: completeWorkOrder_cases [of input d])
  case missing
  with assms show ?thesis by (simp add: completeWorkOrder_not_found)
next
  case (wrong workOrder)
  with assms show ?thesis by (simp add: completeWorkOrder_wrong_status)
next
  case (ready workOrder)
  with assms that [of workOrder] show ?thesis
    by (auto simp: completeWorkOrder_in_progress split: prod.splits sum.splits)
qed

text \<open>
  \<^bold>\<open>C6.\<close>  When \<open>completeWorkOrder\<close> succeeds, the work order it read was \<open>IN_PROGRESS\<close>;
  the row returned and persisted is that work order with status \<open>COMPLETED\<close> and
  \<open>completed_at\<close> set; the adjustments inserted correspond one to one, in order, to the
  work order's lines, each a \<open>REMOVAL\<close> with \<open>quantity_change = - quantity_used\<close>, the
  reason \<^verbatim>\<open>Work order completion: <number>\<close> and the assigned technician as actor; and
  every item's stock has gone down by the quantity its lines use.  An \<open>IN_PROGRESS\<close>
  work order with no lines completes, with no adjustment created and no item touched.
\<close>

theorem completeWorkOrder_success:
  "(\<forall>w d'. completeWorkOrder input now d = (Inr w, d') \<longrightarrow>
      (\<exists>workOrder.
         find (\<lambda>w. wo_id w = cwi_work_order_id input) (workOrdersTable d) = Some workOrder \<and>
         wo_status workOrder = IN_PROGRESS \<and>
         w = markCompleted now workOrder \<and>
         wo_status w = COMPLETED \<and> wo_completed_at w = Some now \<and>
         find (\<lambda>w. wo_id w = cwi_work_order_id input) (workOrdersTable d') = Some w \<and>
         stockAdjustmentsTable d' = stockAdjustmentsTable d @ inserted d d' \<and>
         list_all2 (auditRowFor workOrder) (inserted d d')
           (linesOf d (cwi_work_order_id input)) \<and>
         (\<forall>i. stockOf d' i =
                map_option (\<lambda>s. s - plannedUse (linesOf d (cwi_work_order_id input)) i)
                  (stockOf d i)))) \<and>
   (\<forall>workOrder.
      find (\<lambda>w. wo_id w = cwi_work_order_id input) (workOrdersTable d) = Some workOrder \<and>
      wo_status workOrder = IN_PROGRESS \<and> linesOf d (cwi_work_order_id input) = [] \<longrightarrow>
      fst (completeWorkOrder input now d) = Inr (markCompleted now workOrder) \<and>
      stockAdjustmentsTable (snd (completeWorkOrder input now d)) = stockAdjustmentsTable d \<and>
      itemsTable (snd (completeWorkOrder input now d)) = itemsTable d)"
proof (intro conjI allI impI)
  fix w d' assume a: "completeWorkOrder input now d = (Inr w, d')"
  then obtain workOrder d1 where
    f: "find (\<lambda>w. wo_id w = cwi_work_order_id input) (workOrdersTable d) = Some workOrder"
    and st: "wo_status workOrder = IN_PROGRESS"
    and dl: "deductLines workOrder now (linesOf d (cwi_work_order_id input)) d = (Inr (), d1)"
    and w: "w = markCompleted now workOrder"
    and d': "d' = d1\<lparr>workOrdersTable :=
                updateWhere (\<lambda>w. wo_id w = cwi_work_order_id input) (markCompleted now)
                  (workOrdersTable d)\<rparr>"
    by (rule completeWorkOrder_Inr)
  from deductLines_success [OF dl] obtain rows where
    r1: "stockAdjustmentsTable d1 = stockAdjustmentsTable d @ rows"
    and r2: "list_all2 (auditRowFor workOrder) rows (linesOf d (cwi_work_order_id input))"
    and r3: "\<And>i. stockOf d1 i =
                map_option (\<lambda>s. s - plannedUse (linesOf d (cwi_work_order_id input)) i) (stockOf d i)"
    by blast
  have ins: "inserted d d' = rows"
    by (simp add: inserted_def d' r1)
  have m: "\<And>r. wo_id (markCompleted now r) = wo_id r"
    by (simp add: markCompleted_def)
  have fw: "find (\<lambda>w. wo_id w = cwi_work_order_id input) (workOrdersTable d') = Some w"
    by (simp add: d' find_updateWhere_wo [OF m] f w)
  have st': "stockOf d' i = stockOf d1 i" for i
    by (simp add: stockOf_def d')
  have sa: "stockAdjustmentsTable d' = stockAdjustmentsTable d @ rows"
    by (simp add: d' r1)
  show "\<exists>workOrder.
         find (\<lambda>w. wo_id w = cwi_work_order_id input) (workOrdersTable d) = Some workOrder \<and>
         wo_status workOrder = IN_PROGRESS \<and>
         w = markCompleted now workOrder \<and>
         wo_status w = COMPLETED \<and> wo_completed_at w = Some now \<and>
         find (\<lambda>w. wo_id w = cwi_work_order_id input) (workOrdersTable d') = Some w \<and>
         stockAdjustmentsTable d' = stockAdjustmentsTable d @ inserted d d' \<and>
         list_all2 (auditRowFor workOrder) (inserted d d')
           (linesOf d (cwi_work_order_id input)) \<and>
         (\<forall>i. stockOf d' i =
                map_option (\<lambda>s. s - plannedUse (linesOf d (cwi_work_order_id input)) i)
                  (stockOf d i))"
    using f st w fw r2 r3 sa
    by (intro exI [of _ workOrder]) (simp add: ins st' markCompleted_def)
next
  fix workOrder
  assume a: "find (\<lambda>w. wo_id w = cwi_work_order_id input) (workOrdersTable d) = Some workOrder \<and>
      wo_status workOrder = IN_PROGRESS \<and> linesOf d (cwi_work_order_id input) = []"
  then have c: "completeWorkOrder input now d =
     (Inr (markCompleted now workOrder),
      d\<lparr>workOrdersTable :=
           updateWhere (\<lambda>w. wo_id w = cwi_work_order_id input) (markCompleted now)
             (workOrdersTable d)\<rparr>)"
    by (simp add: completeWorkOrder_in_progress)
  show "fst (completeWorkOrder input now d) = Inr (markCompleted now workOrder)"
    by (simp add: c)
  show "stockAdjustmentsTable (snd (completeWorkOrder input now d)) = stockAdjustmentsTable d"
    by (simp add: c)
  show "itemsTable (snd (completeWorkOrder input now d)) = itemsTable d"
    by (simp add: c)
qed

text \<open>Scenario D of the spec: lines (item 1, 5) and (item 2, 3) against stocks 50 and
  30 leave 45 and 27, with two adjustments.\<close>

theorem completeWorkOrder_success_witness:
  "fst (completeWorkOrder \<lparr>cwi_work_order_id = 1\<rparr> 9 (exampleDb 50 30 IN_PROGRESS)) =
     Inr (markCompleted 9 (exampleWorkOrder IN_PROGRESS)) \<and>
   stockOf (snd (completeWorkOrder \<lparr>cwi_work_order_id = 1\<rparr> 9
                   (exampleDb 50 30 IN_PROGRESS))) 1 = Some 45 \<and>
   stockOf (snd (completeWorkOrder \<lparr>cwi_work_order_id = 1\<rparr> 9
                   (exampleDb 50 30 IN_PROGRESS))) 2 = Some 27 \<and>
   length (inserted (exampleDb 50 30 IN_PROGRESS)
             (snd (completeWorkOrder \<lparr>cwi_work_order_id = 1\<rparr> 9
                     (exampleDb 50 30 IN_PROGRESS)))) = 2 \<and>
   fst (completeWorkOrder \<lparr>cwi_work_order_id = 1\<rparr> 9
          ((exampleDb 50 30 IN_PROGRESS)\<lparr>workOrderItemsTable := []\<rparr>)) =
     Inr (markCompleted 9 (exampleWorkOrder IN_PROGRESS)) \<and>
   stockAdjustmentsTable
     (snd (completeWorkOrder \<lparr>cwi_work_order_id = 1\<rparr> 9
             ((exampleDb 50 30 IN_PROGRESS)\<lparr>workOrderItemsTable := []\<rparr>))) = []"
proof -
  let ?d = "exampleDb 50 30 IN_PROGRESS"
  let ?r = "completeWorkOrder \<lparr>cwi_work_order_id = 1\<rparr> 9 ?d"
  let ?e = "?d\<lparr>workOrderItemsTable := []\<rparr>"
  have ok: "fst ?r = Inr (markCompleted 9 (exampleWorkOrder IN_PROGRESS))"
    by (simp add: run_completeWorkOrder run_adjustStock example_defs)
  then have run: "?r = (Inr (markCompleted 9 (exampleWorkOrder IN_PROGRESS)), snd ?r)"
    by (metis prod.collapse)
  have lines: "linesOf ?d 1 =
    [\<lparr>woi_id = 1, woi_work_order_id = 1, woi_item_id = 1, woi_quantity_used = 5\<rparr>,
     \<lparr>woi_id = 2, woi_work_order_id = 1, woi_item_id = 2, woi_quantity_used = 3\<rparr>]"
    by (simp add: linesOf_def exampleDb_def)
  from completeWorkOrder_success [where input = "\<lparr>cwi_work_order_id = 1\<rparr>" and now = 9
      and d = ?d, THEN conjunct1, rule_format, OF run]
  obtain workOrder where
    l: "list_all2 (auditRowFor workOrder) (inserted ?d (snd ?r)) (linesOf ?d 1)"
    and s: "\<And>i. stockOf (snd ?r) i = map_option (\<lambda>s. s - plannedUse (linesOf ?d 1) i) (stockOf ?d i)"
    by auto
  have 1: "stockOf (snd ?r) 1 = Some 45"
    by (simp add: s lines exampleDb_stock1 plannedUse_def)
  have 2: "stockOf (snd ?r) 2 = Some 27"
    by (simp add: s lines exampleDb_stock2 plannedUse_def)
  from l have 3: "length (inserted ?d (snd ?r)) = 2"
    by (simp add: lines list_all2_lengthD)
  have none: "find (\<lambda>w. wo_id w = cwi_work_order_id \<lparr>cwi_work_order_id = 1\<rparr>) (workOrdersTable ?e) =
                Some (exampleWorkOrder IN_PROGRESS) \<and>
              wo_status (exampleWorkOrder IN_PROGRESS) = IN_PROGRESS \<and>
              linesOf ?e (cwi_work_order_id \<lparr>cwi_work_order_id = 1\<rparr>) = []"
    by (simp add: example_defs linesOf_def)
  from completeWorkOrder_success [where input = "\<lparr>cwi_work_order_id = 1\<rparr>" and now = 9
      and d = ?e, THEN conjunct2, rule_format, OF none]
  have 4: "fst (completeWorkOrder \<lparr>cwi_work_order_id = 1\<rparr> 9 ?e) =
             Inr (markCompleted 9 (exampleWorkOrder IN_PROGRESS)) \<and>
           stockAdjustmentsTable (snd (completeWorkOrder \<lparr>cwi_work_order_id = 1\<rparr> 9 ?e)) = []"
    by (simp add: exampleDb_def)
  from ok 1 2 3 4 show ?thesis by blast
qed

text \<open>
  \<^bold>\<open>C7.\<close>  \<open>completeWorkOrder\<close> fails with \<open>WorkOrderNotFound\<close> when no work order has the
  id, and with \<open>MustBeInProgress\<close> when the work order's status is not \<open>IN_PROGRESS\<close>; in
  both cases the database is unchanged.  After a successful completion, a second call
  (at any later time) fails with \<open>MustBeInProgress COMPLETED\<close> and leaves the database
  as the first call left it: no second deduction.
\<close>

theorem completeWorkOrder_rejections:
  "(find (\<lambda>w. wo_id w = cwi_work_order_id input) (workOrdersTable d) = None \<longrightarrow>
      completeWorkOrder input now d = (Inl (WorkOrderNotFound (cwi_work_order_id input)), d)) \<and>
   (\<forall>workOrder.
      find (\<lambda>w. wo_id w = cwi_work_order_id input) (workOrdersTable d) = Some workOrder \<and>
      wo_status workOrder \<noteq> IN_PROGRESS \<longrightarrow>
      completeWorkOrder input now d = (Inl (MustBeInProgress (wo_status workOrder)), d)) \<and>
   (\<forall>w d'. completeWorkOrder input now d = (Inr w, d') \<longrightarrow>
      completeWorkOrder input later d' = (Inl (MustBeInProgress COMPLETED), d'))"
proof (intro conjI allI impI)
  assume "find (\<lambda>w. wo_id w = cwi_work_order_id input) (workOrdersTable d) = None"
  then show "completeWorkOrder input now d = (Inl (WorkOrderNotFound (cwi_work_order_id input)), d)"
    by (rule completeWorkOrder_not_found)
next
  fix workOrder
  assume "find (\<lambda>w. wo_id w = cwi_work_order_id input) (workOrdersTable d) = Some workOrder \<and>
      wo_status workOrder \<noteq> IN_PROGRESS"
  then show "completeWorkOrder input now d = (Inl (MustBeInProgress (wo_status workOrder)), d)"
    by (simp add: completeWorkOrder_wrong_status)
next
  fix w d' assume a: "completeWorkOrder input now d = (Inr w, d')"
  then obtain workOrder d1 where
    f: "find (\<lambda>w. wo_id w = cwi_work_order_id input) (workOrdersTable d) = Some workOrder"
    and d': "d' = d1\<lparr>workOrdersTable :=
                updateWhere (\<lambda>w. wo_id w = cwi_work_order_id input) (markCompleted now)
                  (workOrdersTable d)\<rparr>"
    by (rule completeWorkOrder_Inr)
  have m: "\<And>r. wo_id (markCompleted now r) = wo_id r"
    by (simp add: markCompleted_def)
  have fw: "find (\<lambda>w. wo_id w = cwi_work_order_id input) (workOrdersTable d') =
              Some (markCompleted now workOrder)"
    by (simp add: d' find_updateWhere_wo [OF m] f)
  have "wo_status (markCompleted now workOrder) \<noteq> IN_PROGRESS"
    by (simp add: markCompleted_def)
  from completeWorkOrder_wrong_status [OF fw this, of later]
  show "completeWorkOrder input later d' = (Inl (MustBeInProgress COMPLETED), d')"
    by (simp add: markCompleted_def)
qed

text \<open>The tests with work order 999, with an \<open>OPEN\<close> work order, and Scenario F of the
  spec.\<close>

theorem completeWorkOrder_rejections_witness:
  "completeWorkOrder \<lparr>cwi_work_order_id = 999\<rparr> 9 (exampleDb 50 30 IN_PROGRESS) =
     (Inl (WorkOrderNotFound 999), exampleDb 50 30 IN_PROGRESS) \<and>
   completeWorkOrder \<lparr>cwi_work_order_id = 1\<rparr> 9 (exampleDb 50 30 OPEN) =
     (Inl (MustBeInProgress OPEN), exampleDb 50 30 OPEN) \<and>
   completeWorkOrder \<lparr>cwi_work_order_id = 1\<rparr> 10
       (snd (completeWorkOrder \<lparr>cwi_work_order_id = 1\<rparr> 9 (exampleDb 50 30 IN_PROGRESS))) =
     (Inl (MustBeInProgress COMPLETED),
      snd (completeWorkOrder \<lparr>cwi_work_order_id = 1\<rparr> 9 (exampleDb 50 30 IN_PROGRESS)))"
proof -
  let ?d = "exampleDb 50 30 IN_PROGRESS"
  let ?r = "completeWorkOrder \<lparr>cwi_work_order_id = 1\<rparr> 9 ?d"
  have n: "find (\<lambda>w. wo_id w = cwi_work_order_id \<lparr>cwi_work_order_id = 999\<rparr>) (workOrdersTable ?d) = None"
    by (simp add: example_defs)
  have o: "find (\<lambda>w. wo_id w = cwi_work_order_id \<lparr>cwi_work_order_id = 1\<rparr>)
             (workOrdersTable (exampleDb 50 30 OPEN)) = Some (exampleWorkOrder OPEN) \<and>
           wo_status (exampleWorkOrder OPEN) \<noteq> IN_PROGRESS"
    by (simp add: example_defs)
  have "fst ?r = Inr (markCompleted 9 (exampleWorkOrder IN_PROGRESS))"
    by (simp add: run_completeWorkOrder run_adjustStock example_defs)
  then have run: "?r = (Inr (markCompleted 9 (exampleWorkOrder IN_PROGRESS)), snd ?r)"
    by (metis prod.collapse)
  note a = completeWorkOrder_rejections [where input = "\<lparr>cwi_work_order_id = 999\<rparr>" and d = ?d and now = 9]
  note b = completeWorkOrder_rejections [where input = "\<lparr>cwi_work_order_id = 1\<rparr>"
      and d = "exampleDb 50 30 OPEN" and now = 9]
  note c = completeWorkOrder_rejections [where input = "\<lparr>cwi_work_order_id = 1\<rparr>" and d = ?d
      and now = 9 and later = 10]
  have 1: "completeWorkOrder \<lparr>cwi_work_order_id = 999\<rparr> 9 ?d = (Inl (WorkOrderNotFound 999), ?d)"
    using a n by simp
  have 2: "completeWorkOrder \<lparr>cwi_work_order_id = 1\<rparr> 9 (exampleDb 50 30 OPEN) =
     (Inl (MustBeInProgress OPEN), exampleDb 50 30 OPEN)"
    using b o by (auto simp: exampleWorkOrder_def)
  have 3: "completeWorkOrder \<lparr>cwi_work_order_id = 1\<rparr> 10 (snd ?r) =
     (Inl (MustBeInProgress COMPLETED), snd ?r)"
    using c run by blast
  from 1 2 3 show ?thesis by blast
qed

text \<open>
  \<^bold>\<open>C1.\<close>  The claim as stated fails: the loop writes line by line and nothing rolls the
  writes back.  With stocks 50 and 2, the second line (item 2, quantity 3) fails the
  stock check after the first line has been applied: item 1 is left at 45 and one
  adjustment row is persisted.
\<close>

theorem completeWorkOrder_partial_counterexample:
  "fst (completeWorkOrder \<lparr>cwi_work_order_id = 1\<rparr> 9 (exampleDb 50 2 IN_PROGRESS)) =
     Inl (InsufficientStockForItem ''ITEM002'' 2 3) \<and>
   stockColumn (exampleDb 50 2 IN_PROGRESS) = [50, 2] \<and>
   stockColumn (snd (completeWorkOrder \<lparr>cwi_work_order_id = 1\<rparr> 9
                       (exampleDb 50 2 IN_PROGRESS))) = [45, 2] \<and>
   map sa_quantity_change
     (inserted (exampleDb 50 2 IN_PROGRESS)
        (snd (completeWorkOrder \<lparr>cwi_work_order_id = 1\<rparr> 9 (exampleDb 50 2 IN_PROGRESS)))) =
     [- 5]"
  by (simp add: run_completeWorkOrder run_adjustStock example_defs stockColumn_def)

text \<open>
  \<^bold>\<open>C1, amended.\<close>  When \<open>completeWorkOrder\<close> fails on the stock check of a line \<open>l\<close>, the
  work orders table is unchanged (the status stays as it was) and no adjustment is
  persisted for \<open>l\<close> or any later line; the lines \<open>pre\<close> before \<open>l\<close> have been applied and
  stay applied: their audit rows are the rows inserted and the stocks are lowered by
  what they use.  When the failing line is the first, the database is unchanged.
\<close>

theorem completeWorkOrder_insufficient:
  assumes "completeWorkOrder input now d =
             (Inl (InsufficientStockForItem sku available required), d')"
  shows "workOrdersTable d' = workOrdersTable d \<and>
     (\<exists>workOrder pre l post.
        find (\<lambda>w. wo_id w = cwi_work_order_id input) (workOrdersTable d) = Some workOrder \<and>
        linesOf d (cwi_work_order_id input) = pre @ l # post \<and>
        stockAdjustmentsTable d' = stockAdjustmentsTable d @ inserted d d' \<and>
        list_all2 (auditRowFor workOrder) (inserted d d') pre \<and>
        (\<forall>i. stockOf d' i = map_option (\<lambda>s. s - plannedUse pre i) (stockOf d i)) \<and>
        stockOf d' (woi_item_id l) = Some available \<and>
        required = woi_quantity_used l \<and> available < required \<and>
        (pre = [] \<longrightarrow> d' = d))"
proof (cases rule: completeWorkOrder_cases [of input d])
  case missing
  with assms show ?thesis by (simp add: completeWorkOrder_not_found)
next
  case (wrong workOrder)
  with assms show ?thesis by (simp add: completeWorkOrder_wrong_status)
next
  case (ready workOrder)
  let ?e = "InsufficientStockForItem sku available required"
  from assms ready
  have dl: "deductLines workOrder now (linesOf d (cwi_work_order_id input)) d = (Inl ?e, d')"
    by (auto simp: completeWorkOrder_in_progress split: prod.splits sum.splits)
  from deductLines_failure [OF dl] obtain pre l post where
    s: "linesOf d (cwi_work_order_id input) = pre @ l # post"
    and p: "deductLines workOrder now pre d = (Inr (), d')"
    and q: "deductLines workOrder now [l] d' = (Inl ?e, d')"
    by blast
  from deductLines_success [OF p] obtain rows where
    r1: "stockAdjustmentsTable d' = stockAdjustmentsTable d @ rows"
    and r2: "list_all2 (auditRowFor workOrder) rows pre"
    and r3: "\<And>i. stockOf d' i = map_option (\<lambda>s. s - plannedUse pre i) (stockOf d i)"
    by blast
  have ins: "inserted d d' = rows"
    by (simp add: inserted_def r1)
  have fr: "workOrdersTable d' = workOrdersTable d"
    using deductLines_frame [of workOrder now pre d] p by simp
  from q have l: "stockOf d' (woi_item_id l) = Some available \<and>
        required = woi_quantity_used l \<and> available < required"
    by (auto simp: deductLines_step split: option.splits if_splits)
  have e: "pre = [] \<longrightarrow> d' = d"
    using p by auto
  have "find (\<lambda>w. wo_id w = cwi_work_order_id input) (workOrdersTable d) = Some workOrder \<and>
        linesOf d (cwi_work_order_id input) = pre @ l # post \<and>
        stockAdjustmentsTable d' = stockAdjustmentsTable d @ inserted d d' \<and>
        list_all2 (auditRowFor workOrder) (inserted d d') pre \<and>
        (\<forall>i. stockOf d' i = map_option (\<lambda>s. s - plannedUse pre i) (stockOf d i)) \<and>
        stockOf d' (woi_item_id l) = Some available \<and>
        required = woi_quantity_used l \<and> available < required \<and>
        (pre = [] \<longrightarrow> d' = d)"
    using ready(1) s r1 r2 r3 l e by (simp add: ins)
  with fr show ?thesis by blast
qed

theorem completeWorkOrder_insufficient_witness:
  "completeWorkOrder \<lparr>cwi_work_order_id = 1\<rparr> 9 (exampleDb 50 2 IN_PROGRESS) =
     (Inl (InsufficientStockForItem ''ITEM002'' 2 3),
      snd (completeWorkOrder \<lparr>cwi_work_order_id = 1\<rparr> 9 (exampleDb 50 2 IN_PROGRESS))) \<and>
   workOrdersTable (snd (completeWorkOrder \<lparr>cwi_work_order_id = 1\<rparr> 9
                           (exampleDb 50 2 IN_PROGRESS))) =
     [exampleWorkOrder IN_PROGRESS]"
proof -
  let ?d = "exampleDb 50 2 IN_PROGRESS"
  let ?r = "completeWorkOrder \<lparr>cwi_work_order_id = 1\<rparr> 9 ?d"
  have "fst ?r = Inl (InsufficientStockForItem ''ITEM002'' 2 3)"
    by (simp add: run_completeWorkOrder run_adjustStock example_defs)
  then have run: "?r = (Inl (InsufficientStockForItem ''ITEM002'' 2 3), snd ?r)"
    by (metis prod.collapse)
  from completeWorkOrder_insufficient [OF run]
  have "workOrdersTable (snd ?r) = workOrdersTable ?d"
    by blast
  then have "workOrdersTable (snd ?r) = [exampleWorkOrder IN_PROGRESS]"
    by (simp add: exampleDb_def)
  with run show ?thesis by blast
qed

section \<open>The audit rows\<close>

lemma auditRowFor_ledger: "auditRowFor workOrder r l \<Longrightarrow> ledgerEquation r"
  by (simp add: auditRowFor_def ledgerEquation_def)

lemma deductLines_rows:
  "\<exists>rows n. stockAdjustmentsTable (snd (deductLines workOrder now ls d)) =
             stockAdjustmentsTable d @ rows \<and>
           list_all2 (auditRowFor workOrder) rows (take n ls)"
proof (cases "deductLines workOrder now ls d")
  case (Pair res d')
  show ?thesis
  proof (cases res)
    case (Inl e)
    with Pair obtain pre l post where
      s: "ls = pre @ l # post" and p: "deductLines workOrder now pre d = (Inr (), d')"
      using deductLines_failure by blast
    from deductLines_success [OF p] obtain rows where
      "stockAdjustmentsTable d' = stockAdjustmentsTable d @ rows"
      "list_all2 (auditRowFor workOrder) rows pre"
      by blast
    then have "stockAdjustmentsTable (snd (deductLines workOrder now ls d)) =
             stockAdjustmentsTable d @ rows \<and>
           list_all2 (auditRowFor workOrder) rows (take (length pre) ls)"
      using Pair s by simp
    then show ?thesis by blast
  next
    case (Inr u)
    with Pair deductLines_success [of workOrder now ls d u d'] obtain rows where
      "stockAdjustmentsTable d' = stockAdjustmentsTable d @ rows"
      "list_all2 (auditRowFor workOrder) rows ls"
      by blast
    then have "stockAdjustmentsTable (snd (deductLines workOrder now ls d)) =
             stockAdjustmentsTable d @ rows \<and>
           list_all2 (auditRowFor workOrder) rows (take (length ls) ls)"
      using Pair by simp
    then show ?thesis by blast
  qed
qed

lemma completeWorkOrder_rows:
  "\<exists>workOrder rows n.
      stockAdjustmentsTable (snd (completeWorkOrder input now d)) =
        stockAdjustmentsTable d @ rows \<and>
      list_all2 (auditRowFor workOrder) rows (take n (linesOf d (cwi_work_order_id input)))"
proof (cases rule: completeWorkOrder_cases [of input d])
  case missing
  then have "stockAdjustmentsTable (snd (completeWorkOrder input now d)) =
        stockAdjustmentsTable d @ [] \<and>
      list_all2 (auditRowFor undefined) [] (take 0 (linesOf d (cwi_work_order_id input)))"
    by (simp add: completeWorkOrder_not_found)
  then show ?thesis by blast
next
  case (wrong workOrder)
  then have "stockAdjustmentsTable (snd (completeWorkOrder input now d)) =
        stockAdjustmentsTable d @ [] \<and>
      list_all2 (auditRowFor workOrder) [] (take 0 (linesOf d (cwi_work_order_id input)))"
    by (simp add: completeWorkOrder_wrong_status)
  then show ?thesis by blast
next
  case (ready workOrder)
  from deductLines_rows [of workOrder now "linesOf d (cwi_work_order_id input)" d]
  obtain rows n where
    r: "stockAdjustmentsTable (snd (deductLines workOrder now (linesOf d (cwi_work_order_id input)) d)) =
             stockAdjustmentsTable d @ rows"
    and l: "list_all2 (auditRowFor workOrder) rows (take n (linesOf d (cwi_work_order_id input)))"
    by blast
  have "stockAdjustmentsTable (snd (completeWorkOrder input now d)) =
          stockAdjustmentsTable (snd (deductLines workOrder now (linesOf d (cwi_work_order_id input)) d))"
    by (simp add: completeWorkOrder_in_progress [OF ready] split: prod.splits sum.splits)
  with r l have "stockAdjustmentsTable (snd (completeWorkOrder input now d)) =
        stockAdjustmentsTable d @ rows \<and>
      list_all2 (auditRowFor workOrder) rows (take n (linesOf d (cwi_work_order_id input)))"
    by simp
  then show ?thesis by blast
qed

lemma inserted_same: "inserted d d = []"
  by (simp add: inserted_def)

lemma list_all2_in_set:
  "list_all2 P xs ys \<Longrightarrow> x \<in> set xs \<Longrightarrow> \<exists>y \<in> set ys. P x y"
  by (induction rule: list_all2_induct) auto

lemma adjustStock_rows:
  "inserted d (snd (adjustStock input adjustedBy now d)) = [] \<or>
   (\<exists>previousStock.
      inserted d (snd (adjustStock input adjustedBy now d)) =
        [newAdjustment (asi_item_id input) (asi_adjustment_type input)
           (signedDelta (asi_adjustment_type input) (asi_quantity_change input))
           (asi_reason input) previousStock
           (previousStock + signedDelta (asi_adjustment_type input) (asi_quantity_change input))
           adjustedBy now
           (setStock (asi_item_id input)
              (previousStock + signedDelta (asi_adjustment_type input) (asi_quantity_change input))
              now d)])"
proof (cases "stockOf d (asi_item_id input)")
  case None
  then show ?thesis by (simp add: adjustStock_not_found inserted_same)
next
  case (Some previousStock)
  show ?thesis
    by (auto simp: adjustStock_found [OF Some] stockSwitch_cases Let_def inserted_same
        inserted_insertAdjustment_setStock)
qed

text \<open>
  \<^bold>\<open>C3.\<close>  The claim as stated fails on the sign: the input schema admits
  \<open>quantity_change = 0\<close>, and an \<open>ADDITION\<close> of \<open>0\<close> inserts a row whose \<open>quantity_change\<close>
  is \<open>0\<close>, which is not positive.
\<close>

theorem zero_quantity_counterexample:
  "map sa_adjustment_type
     (inserted (exampleDb 100 30 IN_PROGRESS)
        (snd (adjustStock (exampleAdjust ADDITION 0 ''recount'') ''u'' 7
                (exampleDb 100 30 IN_PROGRESS)))) = [ADDITION] \<and>
   map sa_quantity_change
     (inserted (exampleDb 100 30 IN_PROGRESS)
        (snd (adjustStock (exampleAdjust ADDITION 0 ''recount'') ''u'' 7
                (exampleDb 100 30 IN_PROGRESS)))) = [0] \<and>
   \<not> list_all signStrict
     (inserted (exampleDb 100 30 IN_PROGRESS)
        (snd (adjustStock (exampleAdjust ADDITION 0 ''recount'') ''u'' 7
                (exampleDb 100 30 IN_PROGRESS))))"
  by (simp add: run_adjustStock example_defs signStrict_def)

text \<open>
  \<^bold>\<open>C3, amended.\<close>  Both handlers only append to the adjustments table.  Every row
  \<open>adjustStock\<close> inserts satisfies \<open>new_stock = previous_stock + quantity_change\<close>, with
  \<open>quantity_change \<ge> 0\<close> for \<open>ADDITION\<close> and \<open>\<le> 0\<close> for \<open>REMOVAL\<close>, strictly so when the
  input quantity is not zero.  Every row \<open>completeWorkOrder\<close> inserts satisfies the same
  equation, is a \<open>REMOVAL\<close> and has \<open>quantity_change = - quantity_used\<close> for a line of
  the work order, hence negative when the lines' quantities are positive (as
  \<^verbatim>\<open>createWorkOrderInputSchema\<close> requires of them).
\<close>

theorem inserted_rows_consistent:
  "stockAdjustmentsTable (snd (adjustStock input adjustedBy now d)) =
     stockAdjustmentsTable d @ inserted d (snd (adjustStock input adjustedBy now d)) \<and>
   (\<forall>r \<in> set (inserted d (snd (adjustStock input adjustedBy now d))).
      ledgerEquation r \<and> signWeak r \<and> (asi_quantity_change input \<noteq> 0 \<longrightarrow> signStrict r)) \<and>
   stockAdjustmentsTable (snd (completeWorkOrder completeInput now d)) =
     stockAdjustmentsTable d @ inserted d (snd (completeWorkOrder completeInput now d)) \<and>
   (\<forall>r \<in> set (inserted d (snd (completeWorkOrder completeInput now d))).
      ledgerEquation r \<and> sa_adjustment_type r = REMOVAL \<and>
      (\<exists>l \<in> set (linesOf d (cwi_work_order_id completeInput)).
         sa_quantity_change r = - woi_quantity_used l)) \<and>
   ((\<forall>l \<in> set (linesOf d (cwi_work_order_id completeInput)). 0 < woi_quantity_used l) \<longrightarrow>
    (\<forall>r \<in> set (inserted d (snd (completeWorkOrder completeInput now d))). signStrict r))"
proof -
  have a1: "stockAdjustmentsTable (snd (adjustStock input adjustedBy now d)) =
     stockAdjustmentsTable d @ inserted d (snd (adjustStock input adjustedBy now d))"
    by (auto simp: adjustStock_def Let_def inserted_def insertAdjustment_def setStock_def
        split: list.splits sum.splits prod.splits)
  have a2: "ledgerEquation r \<and> signWeak r \<and> (asi_quantity_change input \<noteq> 0 \<longrightarrow> signStrict r)"
    if "r \<in> set (inserted d (snd (adjustStock input adjustedBy now d)))" for r
    using that adjustStock_rows [of d input adjustedBy now]
    by (cases "asi_adjustment_type input")
      (auto simp: newAdjustment_def ledgerEquation_def signWeak_def signStrict_def)
  obtain workOrder rows n where
    r: "stockAdjustmentsTable (snd (completeWorkOrder completeInput now d)) =
        stockAdjustmentsTable d @ rows"
    and l: "list_all2 (auditRowFor workOrder) rows
             (take n (linesOf d (cwi_work_order_id completeInput)))"
    using completeWorkOrder_rows by blast
  have ins: "inserted d (snd (completeWorkOrder completeInput now d)) = rows"
    by (simp add: inserted_def r)
  have c1: "stockAdjustmentsTable (snd (completeWorkOrder completeInput now d)) =
     stockAdjustmentsTable d @ inserted d (snd (completeWorkOrder completeInput now d))"
    by (simp add: ins r)
  have each: "\<exists>l \<in> set (linesOf d (cwi_work_order_id completeInput)). auditRowFor workOrder x l"
    if "x \<in> set rows" for x
  proof -
    from list_all2_in_set [OF l that] obtain y where
      y: "y \<in> set (take n (linesOf d (cwi_work_order_id completeInput)))"
      and a: "auditRowFor workOrder x y"
      by blast
    from y have "y \<in> set (linesOf d (cwi_work_order_id completeInput))"
      by (rule in_set_takeD)
    with a show ?thesis by blast
  qed
  have c2: "ledgerEquation x \<and> sa_adjustment_type x = REMOVAL \<and>
      (\<exists>l \<in> set (linesOf d (cwi_work_order_id completeInput)).
         sa_quantity_change x = - woi_quantity_used l)"
    if "x \<in> set (inserted d (snd (completeWorkOrder completeInput now d)))" for x
  proof -
    from that have "x \<in> set rows" by (simp only: ins)
    from each [OF this] obtain l where
      "l \<in> set (linesOf d (cwi_work_order_id completeInput))" "auditRowFor workOrder x l"
      by blast
    then show ?thesis
      by (auto simp: auditRowFor_def ledgerEquation_def)
  qed
  have c3: "signStrict x"
    if p: "\<forall>l \<in> set (linesOf d (cwi_work_order_id completeInput)). 0 < woi_quantity_used l"
      and x: "x \<in> set (inserted d (snd (completeWorkOrder completeInput now d)))" for x
  proof -
    from c2 [OF x] obtain l where
      "sa_adjustment_type x = REMOVAL"
      "l \<in> set (linesOf d (cwi_work_order_id completeInput))"
      "sa_quantity_change x = - woi_quantity_used l"
      by blast
    with p show ?thesis by (auto simp: signStrict_def)
  qed
  show ?thesis
  proof (intro conjI ballI impI)
    show "stockAdjustmentsTable (snd (adjustStock input adjustedBy now d)) =
       stockAdjustmentsTable d @ inserted d (snd (adjustStock input adjustedBy now d))"
      by (rule a1)
    show "stockAdjustmentsTable (snd (completeWorkOrder completeInput now d)) =
       stockAdjustmentsTable d @ inserted d (snd (completeWorkOrder completeInput now d))"
      by (rule c1)
  qed (use a2 c2 c3 in \<open>simp_all\<close>)
qed

text \<open>Scenario C (one row, a \<open>REMOVAL\<close> of \<open>-40\<close>) and Scenario D (two rows).\<close>

theorem inserted_rows_consistent_witness:
  "list_all (\<lambda>r. ledgerEquation r \<and> signWeak r \<and> signStrict r)
     (inserted (exampleDb 100 30 IN_PROGRESS)
        (snd (adjustStock (exampleAdjust REMOVAL (- 40) ''x'') ''u'' 7
                (exampleDb 100 30 IN_PROGRESS)))) \<and>
   length (inserted (exampleDb 100 30 IN_PROGRESS)
        (snd (adjustStock (exampleAdjust REMOVAL (- 40) ''x'') ''u'' 7
                (exampleDb 100 30 IN_PROGRESS)))) = 1 \<and>
   list_all (\<lambda>r. ledgerEquation r \<and> sa_adjustment_type r = REMOVAL \<and> signStrict r)
     (inserted (exampleDb 100 30 IN_PROGRESS)
        (snd (completeWorkOrder \<lparr>cwi_work_order_id = 1\<rparr> 7 (exampleDb 100 30 IN_PROGRESS)))) \<and>
   length (inserted (exampleDb 100 30 IN_PROGRESS)
        (snd (completeWorkOrder \<lparr>cwi_work_order_id = 1\<rparr> 7 (exampleDb 100 30 IN_PROGRESS)))) = 2"
proof -
  let ?d = "exampleDb 100 30 IN_PROGRESS"
  have q: "asi_quantity_change (exampleAdjust REMOVAL (- 40) ''x'') \<noteq> 0"
    by (simp add: exampleAdjust_def)
  have p: "\<forall>l \<in> set (linesOf ?d (cwi_work_order_id \<lparr>cwi_work_order_id = 1\<rparr>)). 0 < woi_quantity_used l"
    by (simp add: linesOf_def exampleDb_def)
  have m: "length (inserted ?d (snd (adjustStock (exampleAdjust REMOVAL (- 40) ''x'') ''u'' 7 ?d))) = 1"
    by (simp add: run_adjustStock example_defs)
  have n: "length (inserted ?d (snd (completeWorkOrder \<lparr>cwi_work_order_id = 1\<rparr> 7 ?d))) = 2"
    by (simp add: run_completeWorkOrder run_adjustStock example_defs)
  from inserted_rows_consistent [where d = ?d and input = "exampleAdjust REMOVAL (- 40) ''x''"
      and adjustedBy = "''u''" and now = 7 and completeInput = "\<lparr>cwi_work_order_id = 1\<rparr>"] q p m n
  show ?thesis
    by (simp add: list_all_iff)
qed

section \<open>\<open>createPurchaseOrder\<close>\<close>














section \<open>The ledger invariant and its frame\<close>

lemma setStock_nonneg:
  "stockNonNegative d \<Longrightarrow> 0 \<le> v \<Longrightarrow> stockNonNegative (setStock n v now d)"
  by (auto simp: stockNonNegative_def setStock_def updateWhere_def list_all_iff)

lemma insertAdjustment_nonneg:
  "stockNonNegative (insertAdjustment row d) = stockNonNegative d"
  by (simp add: stockNonNegative_def insertAdjustment_def)

lemma stockOf_nonneg:
  "stockNonNegative d \<Longrightarrow> stockOf d n = Some s \<Longrightarrow> 0 \<le> s"
  by (auto simp: stockNonNegative_def stockOf_def list_all_iff find_Some_iff)

lemma deductLines_nonneg:
  "stockNonNegative d \<Longrightarrow> stockNonNegative (snd (deductLines workOrder now ls d))"
proof (induction ls arbitrary: d)
  case Nil
  then show ?case by simp
next
  case (Cons l ls)
  show ?case
    using Cons.prems
    by (auto simp: deductLines_step insertAdjustment_nonneg setStock_nonneg
        intro!: Cons.IH split: option.splits)
qed

lemma adjustStock_nonneg:
  assumes "stockNonNegative d"
  shows "stockNonNegative (snd (adjustStock input adjustedBy now d))"
proof (cases "stockOf d (asi_item_id input)")
  case None
  with assms show ?thesis by (simp add: adjustStock_not_found)
next
  case (Some previousStock)
  with assms have "0 \<le> previousStock" by (rule stockOf_nonneg)
  with assms show ?thesis
    by (cases "asi_adjustment_type input")
      (auto simp: adjustStock_found [OF Some] Let_def insertAdjustment_nonneg
        intro!: setStock_nonneg)
qed

lemma completeWorkOrder_nonneg:
  assumes "stockNonNegative d"
  shows "stockNonNegative (snd (completeWorkOrder input now d))"
proof (cases rule: completeWorkOrder_cases [of input d])
  case missing
  with assms show ?thesis by (simp add: completeWorkOrder_not_found)
next
  case (wrong workOrder)
  with assms show ?thesis by (simp add: completeWorkOrder_wrong_status)
next
  case (ready workOrder)
  have "stockNonNegative (snd (deductLines workOrder now (linesOf d (cwi_work_order_id input)) d))"
    using assms by (rule deductLines_nonneg)
  then show ?thesis
    by (auto simp: completeWorkOrder_in_progress [OF ready] stockNonNegative_def
        split: prod.splits sum.splits)
qed

lemma createWorkOrder_items:
  "itemsTable (snd (createWorkOrder input createdBy workOrderNumber now d)) = itemsTable d"
  by (simp add: createWorkOrder_def Let_def split: list.splits option.splits)

lemma createPurchaseOrder_items:
  "itemsTable (snd (createPurchaseOrder input createdBy poNumber now d)) = itemsTable d"
  by (simp add: createPurchaseOrder_def Let_def split: list.splits)

lemma updateData_stock: "i_current_stock (updateData input now r) = i_current_stock r"
  by (simp add: updateData_def Let_def split: option.splits)

lemma updateItem_stockColumn:
  "stockColumn (snd (updateItem input now d)) = stockColumn d"
  by (simp add: updateItem_def Let_def stockColumn_def updateWhere_def updateData_stock comp_def
      split: list.splits cong: map_cong)

lemma stockNonNegative_column:
  "stockNonNegative d = list_all (\<lambda>s. 0 \<le> s) (stockColumn d)"
  by (simp add: stockNonNegative_def stockColumn_def list_all_iff)

text \<open>
  \<^bold>\<open>C2.\<close>  From a database in which no item has a negative \<open>current_stock\<close>, each of
  \<open>adjustStock\<close>, \<open>completeWorkOrder\<close>, \<open>createWorkOrder\<close>, \<open>createPurchaseOrder\<close> and
  \<open>updateItem\<close> leaves a database with the same property, whatever the input and whether
  the call succeeds or fails (the database returned with an error is the one the throw
  leaves behind).
\<close>

theorem stock_never_negative:
  assumes "stockNonNegative d"
  shows "stockNonNegative (snd (adjustStock adjustInput adjustedBy now d)) \<and>
         stockNonNegative (snd (completeWorkOrder completeInput now d)) \<and>
         stockNonNegative (snd (createWorkOrder workOrderInput createdBy workOrderNumber now d)) \<and>
         stockNonNegative (snd (createPurchaseOrder purchaseInput createdBy poNumber now d)) \<and>
         stockNonNegative (snd (updateItem updateInput now d))"
proof (intro conjI)
  show "stockNonNegative (snd (adjustStock adjustInput adjustedBy now d))"
    using assms by (rule adjustStock_nonneg)
  show "stockNonNegative (snd (completeWorkOrder completeInput now d))"
    using assms by (rule completeWorkOrder_nonneg)
  show "stockNonNegative (snd (createWorkOrder workOrderInput createdBy workOrderNumber now d))"
    using assms by (simp add: stockNonNegative_def createWorkOrder_items)
  show "stockNonNegative (snd (createPurchaseOrder purchaseInput createdBy poNumber now d))"
    using assms by (simp add: stockNonNegative_def createPurchaseOrder_items)
  show "stockNonNegative (snd (updateItem updateInput now d))"
    using assms by (simp add: stockNonNegative_column updateItem_stockColumn)
qed

theorem stock_never_negative_witness:
  "stockNonNegative (exampleDb 100 30 IN_PROGRESS) \<and>
   stockNonNegative
     (snd (adjustStock (exampleAdjust REMOVAL 150 ''x'') ''u'' 7 (exampleDb 100 30 IN_PROGRESS))) \<and>
   stockNonNegative
     (snd (completeWorkOrder \<lparr>cwi_work_order_id = 1\<rparr> 7 (exampleDb 100 30 IN_PROGRESS))) \<and>
   stockNonNegative
     (snd (createWorkOrder exampleWorkOrderInput ''u'' ''WO-2025-01-01-0001'' 7
             (exampleDb 100 30 IN_PROGRESS))) \<and>
   stockNonNegative
     (snd (createPurchaseOrder
             (examplePurchase [\<lparr>pol_item_id = 1, pol_quantity = 7, pol_unit_price = 1233 / 100\<rparr>])
             ''u'' ''PO-2025-01-01-0001'' 7 (exampleDb 100 30 IN_PROGRESS))) \<and>
   stockNonNegative (snd (updateItem exampleUpdate 7 (exampleDb 100 30 IN_PROGRESS)))"
proof -
  have h: "stockNonNegative (exampleDb 100 30 IN_PROGRESS)"
    by (simp add: stockNonNegative_def example_defs)
  from h stock_never_negative [OF h] show ?thesis by blast
qed

text \<open>
  \<^bold>\<open>C10.\<close>  \<open>UpdateItemInput\<close> has no \<open>current_stock\<close> field and \<open>updateData\<close> never sets
  the column: \<open>updateItem\<close> leaves the stock column as it was, for every input.  So do
  \<open>createWorkOrder\<close> and \<open>createPurchaseOrder\<close>; \<open>createItem\<close> changes no existing row, it
  can only append the new item with its initial stock.  Of the handlers modelled here,
  only \<open>adjustStock\<close> and \<open>completeWorkOrder\<close> write the \<open>current_stock\<close> of an existing
  item.
\<close>

theorem only_the_recorder_moves_stock:
  "stockColumn (snd (updateItem updateInput now d)) = stockColumn d \<and>
   stockColumn (snd (createWorkOrder workOrderInput createdBy workOrderNumber now d)) =
     stockColumn d \<and>
   stockColumn (snd (createPurchaseOrder purchaseInput createdBy poNumber now d)) =
     stockColumn d \<and>
   (stockColumn (snd (createItem itemInput now d)) = stockColumn d \<or>
    stockColumn (snd (createItem itemInput now d)) =
      stockColumn d @ [ci_current_stock itemInput])"
proof (intro conjI)
  show "stockColumn (snd (updateItem updateInput now d)) = stockColumn d"
    by (rule updateItem_stockColumn)
  show "stockColumn (snd (createWorkOrder workOrderInput createdBy workOrderNumber now d)) =
     stockColumn d"
    by (simp add: stockColumn_def createWorkOrder_items)
  show "stockColumn (snd (createPurchaseOrder purchaseInput createdBy poNumber now d)) =
     stockColumn d"
    by (simp add: stockColumn_def createPurchaseOrder_items)
  show "stockColumn (snd (createItem itemInput now d)) = stockColumn d \<or>
    stockColumn (snd (createItem itemInput now d)) =
      stockColumn d @ [ci_current_stock itemInput]"
    by (simp add: stockColumn_def createItem_def Let_def)
qed

text \<open>The test \<^verbatim>\<open>should not update current_stock through this handler\<close>: renaming item 1
  leaves the stocks at 50 and 30.\<close>

theorem only_the_recorder_moves_stock_witness:
  "stockColumn (snd (updateItem exampleUpdate 7 (exampleDb 50 30 OPEN))) = [50, 30] \<and>
   stockColumn
     (snd (createWorkOrder exampleWorkOrderInput ''u'' ''WO-2025-01-01-0001'' 7
             (exampleDb 50 30 OPEN))) = [50, 30]"
proof -
  have col: "stockColumn (exampleDb 50 30 OPEN) = [50, 30]"
    by (simp add: example_defs stockColumn_def)
  from only_the_recorder_moves_stock [where d = "exampleDb 50 30 OPEN" and now = 7
      and updateInput = exampleUpdate and workOrderInput = exampleWorkOrderInput
      and createdBy = "''u''" and workOrderNumber = "''WO-2025-01-01-0001''"] col
  show ?thesis by simp
qed

end
